theory Spec2Isabelle
  imports Complex_Main "HOL-Library.Sublist" "HOL-Library.List_Lexorder" "HOL-Library.Char_ord"
begin

section \<open>Python values, exceptions and notebook cells\<close>

text \<open>
  The notebooks of the repository are linear Python scripts, cell after cell, over a
  namespace of variables. Every cell becomes a function from the namespace to a result
  and the namespace after the cell. A cell that raises stops at the raising statement:
  the bindings made before it stay, nothing after it runs.
\<close>

datatype exn =
  NameError | KeyError | IndexError | TypeError | AttributeError | ValueError
  | JSONDecodeError | RequestException string | LibraryError string

text \<open>
  A parsed JSON document, as \<open>json.loads\<close> builds it: \<open>None\<close>, \<open>bool\<close>, \<open>int\<close>,
  \<open>float\<close>, \<open>str\<close>, \<open>list\<close> and \<open>dict\<close> with string keys in document order. A float is
  represented by the real number it denotes.
\<close>

datatype json =
  JNull | JBool bool | JInt int | JFloat real | JStr string
  | JArr "json list" | JObj "(string \<times> json) list"

type_synonym ('s, 'a) py = "'s \<Rightarrow> (exn + 'a) \<times> 's"

definition ret :: "'a \<Rightarrow> ('s, 'a) py" where
  "ret x = (\<lambda>s. (Inr x, s))"

definition throw :: "exn \<Rightarrow> ('s, 'a) py" where
  "throw e = (\<lambda>s. (Inl e, s))"

definition lift :: "exn + 'a \<Rightarrow> ('s, 'a) py" where
  "lift r = (\<lambda>s. (r, s))"

definition thn :: "('s, 'a) py \<Rightarrow> ('a \<Rightarrow> ('s, 'b) py) \<Rightarrow> ('s, 'b) py" where
  "thn m f = (\<lambda>s. case m s of (Inl e, s') \<Rightarrow> (Inl e, s') | (Inr x, s') \<Rightarrow> f x s')"

definition rd :: "('s \<Rightarrow> 'a option) \<Rightarrow> ('s, 'a) py" where
  "rd var = (\<lambda>s. case var s of None \<Rightarrow> (Inl NameError, s) | Some v \<Rightarrow> (Inr v, s))"

definition modify :: "('s \<Rightarrow> 's) \<Rightarrow> ('s, unit) py" where
  "modify g = (\<lambda>s. (Inr (), g s))"

text \<open>\<open>obj[key]\<close> for a string key and \<open>obj[i]\<close> for a literal index \<open>i \<ge> 0\<close>.\<close>

fun getitem_str :: "json \<Rightarrow> string \<Rightarrow> exn + json" where
  "getitem_str (JObj d) k = (case map_of d k of None \<Rightarrow> Inl KeyError | Some v \<Rightarrow> Inr v)"
| "getitem_str _ k = Inl TypeError"

fun getitem_int :: "json \<Rightarrow> nat \<Rightarrow> exn + json" where
  "getitem_int (JArr xs) i = (if i < length xs then Inr (xs ! i) else Inl IndexError)"
| "getitem_int (JStr s) i = (if i < length s then Inr (JStr [s ! i]) else Inl IndexError)"
| "getitem_int (JObj d) i = Inl KeyError"
| "getitem_int _ i = Inl TypeError"

text \<open>
  A Python \<open>dict\<close> keeps insertion order: \<open>d[k] = v\<close> overwrites the value of a key that
  is present, in its place, and appends a key that is not.
\<close>

fun dict_setitem :: "('k \<times> 'v) list \<Rightarrow> 'k \<Rightarrow> 'v \<Rightarrow> ('k \<times> 'v) list" where
  "dict_setitem [] k v = [(k, v)]"
| "dict_setitem ((k', v') # d) k v =
     (if k' = k then (k', v) # d else (k', v') # dict_setitem d k v)"

definition dict_get :: "('k \<times> 'v) list \<Rightarrow> 'k \<Rightarrow> 'v \<Rightarrow> 'v" where
  "dict_get d k dflt = (case map_of d k of None \<Rightarrow> dflt | Some v \<Rightarrow> v)"

section \<open>The outside world: HTTP, the STAC client and the other libraries\<close>

datatype request = GET string "(string \<times> string option) list" | POST string json

text \<open>
  A \<open>requests.Response\<close>. The notebooks read it through \<open>.json()\<close> only, which raises
  when the body is not a JSON document; no cell reads the status code.
\<close>

record response =
  status_code :: nat
  body :: "json option"

definition response_json :: "response \<Rightarrow> exn + json" where
  "response_json resp = (case body resp of None \<Rightarrow> Inl JSONDecodeError | Some j \<Rightarrow> Inr j)"

text \<open>A \<open>pystac.Item\<close>, by the attributes the notebooks read.\<close>

record asset =
  href :: string
  title :: "string option"

record item =
  item_id :: string
  collection_id :: "string option"
  bbox :: "real list option"
  geometry :: "json option"
  assets :: "(string \<times> asset) list"
  properties :: "(string \<times> json) list"
  datetime :: "string option"

text \<open>
  What a cell does to the outside, in the order of execution: the HTTP requests of
  \<open>requests\<close>, each by the URL and the parameters handed to the client, the calls of the
  STAC client, what the cell prints and what it displays.
\<close>

datatype event =
  Request request
  | OpenCatalog string
  | Search json
  | GetCollection string
  | OpenRaster string
  | Print string
  | Out json
  | OutImage string
  | OutTable "(string \<times> string option) list"
  | OutWidget string
  | SetYTicks "int list" "string list"

text \<open>
  Everything the notebooks call and do not define is a parameter: the remote service
  behind \<open>requests.get\<close> and \<open>requests.post\<close>, the STAC client, \<open>pystac\<close>, \<open>shapely\<close>,
  \<open>matplotlib\<close>, \<open>rioxarray\<close>, \<open>str()\<close> of a value that is not a string, the rounding
  float operations, and what \<open>folium\<close> looks up for a tile set given by its name and for
  a GeoJSON given as a string (a URL, a file name or inline text).
\<close>

record extern =
  server :: "request \<Rightarrow> exn + response"
  client_open :: "string \<Rightarrow> exn + unit"
  get_parameters :: "json \<Rightarrow> json"
  get_items :: "json \<Rightarrow> exn + item list"
  classification_classes :: "string \<Rightarrow> exn + (string \<times> int) list"
  from_dict :: "json \<Rightarrow> exn + item"
  py_str :: "json \<Rightarrow> string"
  fadd :: "real \<Rightarrow> real \<Rightarrow> real"
  fsub :: "real \<Rightarrow> real \<Rightarrow> real"
  ftruediv :: "real \<Rightarrow> real \<Rightarrow> real"
  item_centroid :: "item \<Rightarrow> exn + real list"
  geometry_centroid :: "json \<Rightarrow> exn + real \<times> real"
  to_rgba :: "real list \<Rightarrow> exn + real list"
  open_rasterio :: "string \<Rightarrow> exn + unit"
  named_tiles :: "string \<Rightarrow> exn + string"
  geojson_source :: "string \<Rightarrow> exn + json"

record world =
  trace :: "event list"

definition emit :: "event \<Rightarrow> ('z world_scheme, unit) py" where
  "emit ev = modify (\<lambda>s. s\<lparr>trace := trace s @ [ev]\<rparr>)"

definition requests_get ::
  "extern \<Rightarrow> string \<Rightarrow> (string \<times> string option) list \<Rightarrow> ('z world_scheme, response) py" where
  "requests_get ext url params =
     thn (emit (Request (GET url params))) (\<lambda>_. lift (server ext (GET url params)))"

definition requests_post :: "extern \<Rightarrow> string \<Rightarrow> json \<Rightarrow> ('z world_scheme, response) py" where
  "requests_post ext url payload =
     thn (emit (Request (POST url payload))) (\<lambda>_. lift (server ext (POST url payload)))"

text \<open>A value inside an f-string: a \<open>str\<close> as it is, anything else through \<open>str()\<close>.\<close>

definition fstr :: "extern \<Rightarrow> json \<Rightarrow> string" where
  "fstr ext v = (case v of JStr s \<Rightarrow> s | _ \<Rightarrow> py_str ext v)"

definition fstr_opt :: "string option \<Rightarrow> string" where
  "fstr_opt v = (case v of None \<Rightarrow> ''None'' | Some s \<Rightarrow> s)"

definition lookup :: "('k \<times> 'v) list \<Rightarrow> 'k \<Rightarrow> exn + 'v" where
  "lookup d k = (case map_of d k of None \<Rightarrow> Inl KeyError | Some v \<Rightarrow> Inr v)"

fun digit :: "nat \<Rightarrow> char" where
  "digit n = ''0123456789'' ! (n mod 10)"

fun show_nat :: "nat \<Rightarrow> string" where
  "show_nat n = (if n < 10 then [digit n] else show_nat (n div 10) @ [digit n])"

fun run_cells :: "('s, unit) py list \<Rightarrow> ('s, unit) py" where
  "run_cells [] = ret ()"
| "run_cells (c # cs) = thn c (\<lambda>_. run_cells cs)"


fun searches_in :: "event list \<Rightarrow> json list" where
  "searches_in [] = []"
| "searches_in (Search q # es) = q # searches_in es"
| "searches_in (_ # es) = searches_in es"

section \<open>The Chesapeake notebook: class names, class values and colorbar labels\<close>

text \<open>
  \<^verbatim>\<open>
  class_names = {
      x["description"]: x["value"] for x in x.properties["classification:classes"]
  }
  class_values = {v: k for k, v in class_names.items()}
  ...
  ticks = np.arange(cmap.N)
  labels = [class_values.get(value, "nodata") for value in ticks]
  \<close>
  A class is the pair of its description and its value; \<open>cmap.N\<close> is the number of
  colours, one for each entry of the class map.
\<close>

type_synonym classes = "(string \<times> int) list"

definition class_names :: "classes \<Rightarrow> (string \<times> int) list" where
  "class_names cls = foldl (\<lambda>d x. dict_setitem d (fst x) (snd x)) [] cls"

definition class_values :: "(string \<times> int) list \<Rightarrow> (int \<times> string) list" where
  "class_values names = foldl (\<lambda>d kv. dict_setitem d (snd kv) (fst kv)) [] names"

definition ticks :: "nat \<Rightarrow> int list" where
  "ticks N = map int [0..<N]"

definition labels :: "(int \<times> string) list \<Rightarrow> int list \<Rightarrow> string list" where
  "labels vals ts = map (\<lambda>v. dict_get vals v ''nodata'') ts"

text \<open>The labels of the colorbar for a list of classes and a colormap of \<open>N\<close> colours.\<close>

definition colorbar_labels :: "classes \<Rightarrow> nat \<Rightarrow> string list" where
  "colorbar_labels cls N = labels (class_values (class_names cls)) (ticks N)"

text \<open>The classes and the class map that the notebook shows for its collection.\<close>

definition chesapeake_classes :: classes where
  "chesapeake_classes =
    [(''Impervious Roads'', 1), (''Impervious Non-Roads'', 2),
     (''Tree Canopy over Impervious Surfaces'', 3), (''Water'', 4),
     (''Tidal Wetlands'', 5), (''Floodplain Wetlands'', 6), (''Other Wetlands'', 7),
     (''Forest'', 8), (''Tree Canopy over Turf Grass'', 9), (''Mixed Open'', 10),
     (''Fractional Turf (small)'', 11), (''Fractional Turf (medium)'', 12),
     (''Fractional Turf (large)'', 13), (''Fractional Impervious'', 14),
     (''Turf Grass'', 15), (''Cropland'', 16), (''Pasture/Hay'', 17)]"

definition chesapeake_classmap :: "(string \<times> int list) list" where
  "chesapeake_classmap =
    [(''0'', [0, 0, 0, 0]), (''1'', [0, 0, 0, 255]), (''2'', [115, 0, 0, 255]),
     (''3'', [85, 255, 0, 255]), (''4'', [0, 112, 255, 255]), (''5'', [0, 255, 197, 255]),
     (''6'', [0, 230, 169, 255]), (''7'', [0, 230, 169, 255]), (''8'', [38, 115, 0, 255]),
     (''9'', [170, 255, 0, 255]), (''10'', [168, 112, 0, 255]),
     (''11'', [255, 190, 232, 255]), (''12'', [255, 190, 232, 255]),
     (''13'', [255, 190, 232, 255]), (''14'', [197, 0, 255, 255]),
     (''15'', [255, 255, 115, 255]), (''16'', [230, 152, 0, 255]),
     (''17'', [230, 152, 0, 255]), (''255'', [0, 0, 0, 0])]"

section \<open>The Chesapeake notebook, cell by cell\<close>

text \<open>
  \<open>items\<close> is bound to an empty \<open>dict\<close> first and to a \<open>list\<close> of items later.
\<close>

datatype items_var = ItemsDict "(string \<times> item) list" | ItemsList "item list"

record ns_chesapeake = world +
  ch_catalog :: "string option"
  ch_bbox :: "real list option"
  ch_items :: "items_var option"
  ch_datetime :: "string option"
  ch_search :: "json option"
  ch_asset_href :: "string option"
  ch_class_names :: "(string \<times> int) list option"
  ch_class_values :: "(int \<times> string) list option"
  ch_classmap :: "json option"
  ch_colors :: "real list list option"
  ch_ticks :: "int list option"
  ch_labels :: "string list option"
  ch_ds :: "string option"

definition stac_url :: string where
  "stac_url = ''https://planetarycomputer.microsoft.com/api/stac/v1/''"

definition classmap_url :: string where
  "classmap_url =
     ''https://pct-apis-staging.westeurope.cloudapp.azure.com/data/legend/classmap/chesapeake-lu''"

definition query_bbox :: "extern \<Rightarrow> real list" where
  "query_bbox ext =
     (let latitude = 39.29; longitude = - 76.61; buffer = 0.6
      in [fsub ext longitude buffer, fsub ext latitude buffer,
          fadd ext longitude buffer, fadd ext latitude buffer])"

text \<open>
  \<open>catalog.search(...)\<close> builds a search object and sends nothing; the search is kept
  here by its keyword arguments.
\<close>

definition search_kwargs :: "real list \<Rightarrow> string \<Rightarrow> json" where
  "search_kwargs bb dt =
     JObj [(''collections'', JArr [JStr ''chesapeake-lu'']),
           (''bbox'', JArr (map JFloat bb)), (''datetime'', JStr dt)]"

text \<open>
  \<^verbatim>\<open>
  for datetime in datetimes:
      print(f"Fetching {datetime}")
      search = catalog.search(collections=["chesapeake-lu"], bbox=bbox, datetime=datetime)
  \<close>
\<close>

fun fetch_loop :: "real list \<Rightarrow> string list \<Rightarrow> (ns_chesapeake, unit) py" where
  "fetch_loop bb [] = ret ()"
| "fetch_loop bb (dt # dts) =
     thn (modify (\<lambda>s. s\<lparr>ch_datetime := Some dt\<rparr>)) (\<lambda>_.
     thn (emit (Print (''Fetching '' @ dt))) (\<lambda>_.
     thn (modify (\<lambda>s. s\<lparr>ch_search := Some (search_kwargs bb dt)\<rparr>)) (\<lambda>_.
     fetch_loop bb dts)))"

text \<open>
  The query cell. The list \<open>datetimes\<close> is \<open>["2013"]\<close> in the notebook.
  \<^verbatim>\<open>
  items = dict()
  for datetime in datetimes: ...
  items = list(search.get_items())
  print(f"Returned {len(items)} Items")
  \<close>
\<close>

definition cell_query :: "extern \<Rightarrow> string list \<Rightarrow> (ns_chesapeake, unit) py" where
  "cell_query ext datetimes =
     thn (emit (OpenCatalog stac_url)) (\<lambda>_.
     thn (lift (client_open ext stac_url)) (\<lambda>_.
     thn (modify (\<lambda>s. s\<lparr>ch_catalog := Some stac_url\<rparr>)) (\<lambda>_.
     thn (modify (\<lambda>s. s\<lparr>ch_bbox := Some (query_bbox ext)\<rparr>)) (\<lambda>_.
     thn (modify (\<lambda>s. s\<lparr>ch_items := Some (ItemsDict [])\<rparr>)) (\<lambda>_.
     thn (fetch_loop (query_bbox ext) datetimes) (\<lambda>_.
     thn (rd ch_search) (\<lambda>search.
     thn (emit (Search search)) (\<lambda>_.
     thn (lift (get_items ext search)) (\<lambda>xs.
     thn (modify (\<lambda>s. s\<lparr>ch_items := Some (ItemsList xs)\<rparr>)) (\<lambda>_.
     emit (Print (''Returned '' @ show_nat (length xs) @ '' Items''))))))))))))"


text \<open>\<open>items[0]\<close>\<close>

definition first_item :: "(ns_chesapeake, item) py" where
  "first_item =
     thn (rd ch_items) (\<lambda>v. lift (case v of
         ItemsDict d \<Rightarrow> Inl KeyError
       | ItemsList [] \<Rightarrow> Inl IndexError
       | ItemsList (x # _) \<Rightarrow> Inr x))"

text \<open>\<open>asset_href = items[0].assets["data"].href; print(asset_href)\<close>\<close>

definition cell_asset_href :: "(ns_chesapeake, unit) py" where
  "cell_asset_href =
     thn first_item (\<lambda>it.
     thn (lift (lookup (assets it) ''data'')) (\<lambda>a.
     thn (modify (\<lambda>s. s\<lparr>ch_asset_href := Some (href a)\<rparr>)) (\<lambda>_.
     emit (Print (href a)))))"

text \<open>\<open>for k, asset in items[0].assets.items(): t.add_row(k, asset.title)\<close>\<close>

definition cell_assets_table :: "(ns_chesapeake, unit) py" where
  "cell_assets_table =
     thn first_item (\<lambda>it. emit (OutTable (map (\<lambda>ka. (fst ka, title (snd ka))) (assets it))))"

text \<open>\<open>for k, v in sorted(items[0].properties.items()): t.add_row(k, str(v))\<close>\<close>

definition cell_properties_table :: "extern \<Rightarrow> (ns_chesapeake, unit) py" where
  "cell_properties_table ext =
     thn first_item (\<lambda>it.
       emit (OutTable (map (\<lambda>kv. (fst kv, Some (fstr ext (snd kv))))
                           (sort_key fst (properties it)))))"

definition show_int :: "int \<Rightarrow> string" where
  "show_int i = (if i < 0 then ''-'' @ show_nat (nat (- i)) else show_nat (nat i))"

text \<open>
  The classification cell: the classes of the collection's \<open>data\<close> item asset come from
  the STAC client, through \<open>catalog\<close>; \<open>class_names\<close> and \<open>class_values\<close> are built
  from them.
  \<^verbatim>\<open>
  collection = catalog.get_collection("chesapeake-lu")
  ia = ItemAssetsExtension.ext(collection)
  x = ia.item_assets["data"]
  class_names = {...}
  class_values = {v: k for k, v in class_names.items()}
  \<close>
\<close>

definition cell_classifications :: "extern \<Rightarrow> (ns_chesapeake, unit) py" where
  "cell_classifications ext =
     thn (rd ch_catalog) (\<lambda>_.
     thn (emit (GetCollection ''chesapeake-lu'')) (\<lambda>_.
     thn (lift (classification_classes ext ''chesapeake-lu'')) (\<lambda>cls.
     thn (modify (\<lambda>s. s\<lparr>ch_class_names := Some (class_names cls)\<rparr>)) (\<lambda>_.
     thn (rd ch_class_names) (\<lambda>names.
     thn (modify (\<lambda>s. s\<lparr>ch_class_values := Some (class_values names)\<rparr>)) (\<lambda>_.
     emit (OutTable (map (\<lambda>kv. (fst kv, Some (show_int (snd kv)))) names))))))))"

text \<open>\<open>classmap = requests.get(".../legend/classmap/chesapeake-lu").json(); classmap\<close>\<close>

definition cell_classmap :: "extern \<Rightarrow> (ns_chesapeake, unit) py" where
  "cell_classmap ext =
     thn (requests_get ext classmap_url []) (\<lambda>resp.
     thn (lift (response_json resp)) (\<lambda>j.
     thn (modify (\<lambda>s. s\<lparr>ch_classmap := Some j\<rparr>)) (\<lambda>_.
     emit (Out j))))"

text \<open>
  \<^verbatim>\<open>
  colors = [matplotlib.colors.to_rgba([x / 255 for x in c]) for c in classmap.values()]
  cmap = matplotlib.colors.ListedColormap(colors, name="chesapeak-lu")
  ticks = np.arange(cmap.N)
  labels = [class_values.get(value, "nodata") for value in ticks]
  \<close>
\<close>

fun map_exn :: "('a \<Rightarrow> exn + 'b) \<Rightarrow> 'a list \<Rightarrow> exn + 'b list" where
  "map_exn f [] = Inr []"
| "map_exn f (x # xs) =
     (case f x of Inl e \<Rightarrow> Inl e
      | Inr y \<Rightarrow> (case map_exn f xs of Inl e \<Rightarrow> Inl e | Inr ys \<Rightarrow> Inr (y # ys)))"

definition dict_values :: "json \<Rightarrow> exn + json list" where
  "dict_values j = (case j of JObj d \<Rightarrow> Inr (map snd d) | _ \<Rightarrow> Inl AttributeError)"

definition json_iter :: "json \<Rightarrow> exn + json list" where
  "json_iter j = (case j of
       JArr xs \<Rightarrow> Inr xs
     | JStr s \<Rightarrow> Inr (map (\<lambda>c. JStr [c]) s)
     | JObj d \<Rightarrow> Inr (map (\<lambda>kv. JStr (fst kv)) d)
     | _ \<Rightarrow> Inl TypeError)"

definition scale255 :: "extern \<Rightarrow> json \<Rightarrow> exn + real" where
  "scale255 ext x = (case x of
       JInt i \<Rightarrow> Inr (ftruediv ext (real_of_int i) 255)
     | JFloat r \<Rightarrow> Inr (ftruediv ext r 255)
     | JBool b \<Rightarrow> Inr (ftruediv ext (if b then 1 else 0) 255)
     | _ \<Rightarrow> Inl TypeError)"

definition color_of :: "extern \<Rightarrow> json \<Rightarrow> exn + real list" where
  "color_of ext c =
     (case json_iter c of Inl e \<Rightarrow> Inl e
      | Inr xs \<Rightarrow> (case map_exn (scale255 ext) xs of Inl e \<Rightarrow> Inl e | Inr ys \<Rightarrow> to_rgba ext ys))"

definition cell_colormap :: "extern \<Rightarrow> (ns_chesapeake, unit) py" where
  "cell_colormap ext =
     thn (rd ch_classmap) (\<lambda>cm.
     thn (lift (dict_values cm)) (\<lambda>cs.
     thn (lift (map_exn (color_of ext) cs)) (\<lambda>colors.
     thn (modify (\<lambda>s. s\<lparr>ch_colors := Some colors\<rparr>)) (\<lambda>_.
     thn (modify (\<lambda>s. s\<lparr>ch_ticks := Some (ticks (length colors))\<rparr>)) (\<lambda>_.
     thn (rd ch_class_values) (\<lambda>vals.
     modify (\<lambda>s. s\<lparr>ch_labels := Some (labels vals (ticks (length colors)))\<rparr>)))))))"

text \<open>\<open>ds = rioxarray.open_rasterio(items[0].assets["data"].href).squeeze()\<close>\<close>

definition cell_open_raster :: "extern \<Rightarrow> (ns_chesapeake, unit) py" where
  "cell_open_raster ext =
     thn first_item (\<lambda>it.
     thn (lift (lookup (assets it) ''data'')) (\<lambda>a.
     thn (emit (OpenRaster (href a))) (\<lambda>_.
     thn (lift (open_rasterio ext (href a))) (\<lambda>_.
     modify (\<lambda>s. s\<lparr>ch_ds := Some (href a)\<rparr>)))))"

text \<open>The plot cell: \<open>colorbar.set_yticks(ticks, labels=labels)\<close>\<close>

definition cell_plot :: "(ns_chesapeake, unit) py" where
  "cell_plot =
     thn (rd ch_ds) (\<lambda>_.
     thn (rd ch_ticks) (\<lambda>ts.
     thn (rd ch_labels) (\<lambda>ls.
     emit (SetYTicks ts ls))))"

section \<open>The data API notebook, cell by cell\<close>

text \<open>\<open>r\<close> is bound to a response first and to a parsed TileJSON later.\<close>

datatype rvar = RResponse response | RJson json

text \<open>
  A \<open>folium.Map\<close> with the layers added to it: a tile layer has its URL template, its
  attribution and its \<open>min_zoom\<close> when one is given.
\<close>

datatype layer = TileLayer json string "json option" | GeoJson json

text \<open>
  \<open>folium.TileLayer(tiles=t, attr=a, min_zoom=z)\<close>. The constructor calls \<open>t.lower()\<close>, so it
  raises \<open>AttributeError\<close> when \<open>t\<close> is not a string. A string with the placeholders is
  no name of a built-in tile set and is kept as the URL template of the layer; any other
  string is looked up by \<open>folium\<close>.
\<close>

definition folium_TileLayer :: "extern \<Rightarrow> json \<Rightarrow> string \<Rightarrow> json option \<Rightarrow> exn + layer" where
  "folium_TileLayer ext t a z = (case t of
       JStr u \<Rightarrow>
         (if sublist ''{z}/{x}/{y}'' u then Inr (TileLayer (JStr u) a z)
          else (case named_tiles ext u of Inl e \<Rightarrow> Inl e | Inr v \<Rightarrow> Inr (TileLayer (JStr v) a z)))
     | _ \<Rightarrow> Inl AttributeError)"

text \<open>
  \<open>folium.GeoJson(data=d)\<close>: a \<open>dict\<close> is taken as it is, a string is read by
  \<open>folium\<close>, anything else raises \<open>ValueError\<close>.
\<close>

definition folium_GeoJson :: "extern \<Rightarrow> json \<Rightarrow> exn + layer" where
  "folium_GeoJson ext d = (case d of
       JObj kv \<Rightarrow> Inr (GeoJson (JObj kv))
     | JStr u \<Rightarrow> (case geojson_source ext u of Inl e \<Rightarrow> Inl e | Inr j \<Rightarrow> Inr (GeoJson j))
     | _ \<Rightarrow> Inl ValueError)"

record folium_map =
  location :: "real \<times> real"
  zoom_start :: nat
  map_tiles :: string
  map_attr :: string
  layers :: "layer list"

record ns_data = world +
  da_r :: "rvar option"
  da_item :: "item option"
  da_asset :: "asset option"
  da_tiles :: "json option"
  da_center :: "(real \<times> real) option"
  da_m :: "folium_map option"
  da_catalog :: "string option"
  da_aoi :: "json option"
  da_collection :: "string option"
  da_query :: "json option"
  da_search :: "json option"
  da_r_register :: "response option"
  da_registered :: "json option"
  da_tilejson_url :: "json option"
  da_mosaic_info :: "json option"
  da_render_config :: "json option"

definition item_url :: string where
  "item_url = ''https://planetarycomputer.microsoft.com/api/stac/v1/collections/sentinel-2-l2a/items/S2B_MSIL2A_20220606T080609_R078_T36PUR_20220606T193343''"

definition register_url :: string where
  "register_url = ''https://planetarycomputer.microsoft.com/api/data/v1/mosaic/register''"

definition info_url :: string where
  "info_url = ''https://planetarycomputer.microsoft.com/api/data/v1/mosaic/info''"

definition catalog_url :: string where
  "catalog_url = ''https://planetarycomputer.microsoft.com/api/stac/v1''"

definition basemap_url :: string where
  "basemap_url = ''https://server.arcgisonline.com/ArcGIS/rest/services/World_Shaded_Relief/MapServer/tile/{z}/{y}/{x}''"

definition basemap_attr :: string where
  "basemap_attr = ''Basemap &copy; Esri &mdash; Source: Esri''"


text \<open>\<open>Image(url=item.assets["rendered_preview"].href)\<close>\<close>

definition cell_preview :: "(ns_data, unit) py" where
  "cell_preview =
     thn (rd da_item) (\<lambda>it.
     thn (lift (lookup (assets it) ''rendered_preview'')) (\<lambda>a.
     emit (OutImage (href a))))"

text \<open>\<open>print(item.assets["tilejson"].href)\<close>\<close>

definition cell_print_tilejson :: "(ns_data, unit) py" where
  "cell_print_tilejson =
     thn (rd da_item) (\<lambda>it.
     thn (lift (lookup (assets it) ''tilejson'')) (\<lambda>a.
     emit (Print (href a))))"

text \<open>\<open>r = requests.get(item.assets["tilejson"].href).json(); r\<close>\<close>

definition cell_tilejson :: "extern \<Rightarrow> (ns_data, unit) py" where
  "cell_tilejson ext =
     thn (rd da_item) (\<lambda>it.
     thn (lift (lookup (assets it) ''tilejson'')) (\<lambda>a.
     thn (requests_get ext (href a) []) (\<lambda>resp.
     thn (lift (response_json resp)) (\<lambda>j.
     thn (modify (\<lambda>s. s\<lparr>da_r := Some (RJson j)\<rparr>)) (\<lambda>_.
     emit (Out j))))))"

text \<open>\<open>tiles = r["tiles"][0]\<close>\<close>

definition cell_tiles :: "(ns_data, unit) py" where
  "cell_tiles =
     thn (rd da_r) (\<lambda>r.
     thn (lift (case r of RResponse _ \<Rightarrow> Inl TypeError | RJson j \<Rightarrow> getitem_str j ''tiles'')) (\<lambda>ts.
     thn (lift (getitem_int ts 0)) (\<lambda>t.
     modify (\<lambda>s. s\<lparr>da_tiles := Some t\<rparr>))))"

text \<open>\<open>item.bbox[i]\<close>: the bounding box of an item may be \<open>None\<close>.\<close>

definition bbox_at :: "item \<Rightarrow> nat \<Rightarrow> exn + real" where
  "bbox_at it i = (case bbox it of
       None \<Rightarrow> Inl TypeError
     | Some b \<Rightarrow> if i < length b then Inr (b ! i) else Inl IndexError)"

text \<open>\<open>layer.add_to(m)\<close>\<close>

definition add_to :: "layer \<Rightarrow> (ns_data, unit) py" where
  "add_to l = thn (rd da_m) (\<lambda>m. modify (\<lambda>s. s\<lparr>da_m := Some (m\<lparr>layers := layers m @ [l]\<rparr>)\<rparr>))"

text \<open>
  \<^verbatim>\<open>
  center = ((item.bbox[1] + item.bbox[3]) / 2, (item.bbox[0] + item.bbox[2]) / 2)
  m = folium.Map(location=center, zoom_start=11, tiles="https://server...", attr="Basemap ...")
  folium.TileLayer(tiles=tiles, attr="Planetary Computer").add_to(m)
  m
  \<close>
\<close>

definition cell_map :: "extern \<Rightarrow> (ns_data, unit) py" where
  "cell_map ext =
     thn (rd da_item) (\<lambda>it.
     thn (lift (bbox_at it 1)) (\<lambda>b1.
     thn (lift (bbox_at it 3)) (\<lambda>b3.
     thn (lift (bbox_at it 0)) (\<lambda>b0.
     thn (lift (bbox_at it 2)) (\<lambda>b2.
     thn (modify (\<lambda>s. s\<lparr>da_center :=
            Some (ftruediv ext (fadd ext b1 b3) 2, ftruediv ext (fadd ext b0 b2) 2)\<rparr>)) (\<lambda>_.
     thn (rd da_center) (\<lambda>center.
     thn (modify (\<lambda>s. s\<lparr>da_m := Some \<lparr>location = center, zoom_start = 11,
            map_tiles = basemap_url, map_attr = basemap_attr, layers = []\<rparr>\<rparr>)) (\<lambda>_.
     thn (rd da_tiles) (\<lambda>t.
     thn (lift (folium_TileLayer ext t ''Planetary Computer'' None)) (\<lambda>tl.
     thn (add_to tl) (\<lambda>_.
     emit (OutWidget ''m''))))))))))))"

text \<open>The area of interest of the mosaic, a GeoJSON polygon.\<close>

definition aoi_polygon :: json where
  "aoi_polygon = JObj [(''type'', JStr ''Polygon''),
     (''coordinates'', JArr [JArr [
        JArr [JFloat 29.036865234375, JFloat 7.857940257224196],
        JArr [JFloat 31.4813232421875, JFloat 7.857940257224196],
        JArr [JFloat 31.4813232421875, JFloat 10.055402736564236],
        JArr [JFloat 29.036865234375, JFloat 10.055402736564236],
        JArr [JFloat 29.036865234375, JFloat 7.857940257224196]]])]"

definition cloud_query :: json where
  "cloud_query = JObj [(''eo:cloud_cover'', JObj [(''lt'', JStr ''10'')])]"

text \<open>
  \<^verbatim>\<open>
  catalog = pystac_client.Client.open("https://planetarycomputer.microsoft.com/api/stac/v1")
  aoi = {...}
  collection = "sentinel-2-l2a"
  query = {"eo:cloud_cover": {"lt": "10"}}
  search = catalog.search(intersects=aoi, collections="sentinel-2-l2a", query=query)
  \<close>
\<close>

definition cell_search :: "extern \<Rightarrow> (ns_data, unit) py" where
  "cell_search ext =
     thn (emit (OpenCatalog catalog_url)) (\<lambda>_.
     thn (lift (client_open ext catalog_url)) (\<lambda>_.
     thn (modify (\<lambda>s. s\<lparr>da_catalog := Some catalog_url\<rparr>)) (\<lambda>_.
     thn (modify (\<lambda>s. s\<lparr>da_aoi := Some aoi_polygon\<rparr>)) (\<lambda>_.
     thn (modify (\<lambda>s. s\<lparr>da_collection := Some ''sentinel-2-l2a''\<rparr>)) (\<lambda>_.
     thn (modify (\<lambda>s. s\<lparr>da_query := Some cloud_query\<rparr>)) (\<lambda>_.
     modify (\<lambda>s. s\<lparr>da_search := Some (JObj [(''intersects'', aoi_polygon),
        (''collections'', JStr ''sentinel-2-l2a''), (''query'', cloud_query)])\<rparr>)))))))"

text \<open>
  \<^verbatim>\<open>
  r_register = requests.post(".../mosaic/register", json=search.get_parameters())
  registered = r_register.json()
  registered
  \<close>
\<close>

definition cell_register :: "extern \<Rightarrow> (ns_data, unit) py" where
  "cell_register ext =
     thn (rd da_search) (\<lambda>search.
     thn (requests_post ext register_url (get_parameters ext search)) (\<lambda>resp.
     thn (modify (\<lambda>s. s\<lparr>da_r_register := Some resp\<rparr>)) (\<lambda>_.
     thn (lift (response_json resp)) (\<lambda>j.
     thn (modify (\<lambda>s. s\<lparr>da_registered := Some j\<rparr>)) (\<lambda>_.
     emit (Out j))))))"

text \<open>\<open>tilejson_url = registered["links"][1]["href"]\<close>\<close>

definition link_href :: "json \<Rightarrow> exn + json" where
  "link_href reg =
     (case getitem_str reg ''links'' of Inl e \<Rightarrow> Inl e
      | Inr ls \<Rightarrow> (case getitem_int ls 1 of Inl e \<Rightarrow> Inl e | Inr l \<Rightarrow> getitem_str l ''href''))"

definition cell_tilejson_url :: "(ns_data, unit) py" where
  "cell_tilejson_url =
     thn (rd da_registered) (\<lambda>reg.
     thn (lift (link_href reg)) (\<lambda>h.
     modify (\<lambda>s. s\<lparr>da_tilejson_url := Some h\<rparr>)))"

text \<open>
  \<^verbatim>\<open>
  mosaic_info = requests.get(
      ".../mosaic/info", params=dict(collection=item.collection_id)
  ).json()
  render_config = mosaic_info["renderOptions"][0]
  render_config
  \<close>
\<close>

definition first_render_options :: "json \<Rightarrow> exn + json" where
  "first_render_options info =
     (case getitem_str info ''renderOptions'' of Inl e \<Rightarrow> Inl e | Inr ros \<Rightarrow> getitem_int ros 0)"

definition cell_mosaic_info :: "extern \<Rightarrow> (ns_data, unit) py" where
  "cell_mosaic_info ext =
     thn (rd da_item) (\<lambda>it.
     thn (requests_get ext info_url [(''collection'', collection_id it)]) (\<lambda>resp.
     thn (lift (response_json resp)) (\<lambda>j.
     thn (modify (\<lambda>s. s\<lparr>da_mosaic_info := Some j\<rparr>)) (\<lambda>_.
     thn (lift (first_render_options j)) (\<lambda>cfg.
     thn (modify (\<lambda>s. s\<lparr>da_render_config := Some cfg\<rparr>)) (\<lambda>_.
     emit (Out cfg)))))))"

text \<open>
  \<^verbatim>\<open>
  tiles = requests.get(
      f"{tilejson_url}?collection={item.collection_id}&{render_config['options']}"
  ).json()["tiles"][0]
  tiles
  \<close>
\<close>

definition mosaic_tilejson_request :: "extern \<Rightarrow> json \<Rightarrow> item \<Rightarrow> json \<Rightarrow> string" where
  "mosaic_tilejson_request ext u it opts =
     fstr ext u @ ''?collection='' @ fstr_opt (collection_id it) @ ''&'' @ fstr ext opts"

definition first_tiles :: "json \<Rightarrow> exn + json" where
  "first_tiles tj =
     (case getitem_str tj ''tiles'' of Inl e \<Rightarrow> Inl e | Inr ts \<Rightarrow> getitem_int ts 0)"

definition cell_mosaic_tiles :: "extern \<Rightarrow> (ns_data, unit) py" where
  "cell_mosaic_tiles ext =
     thn (rd da_tilejson_url) (\<lambda>u.
     thn (rd da_item) (\<lambda>it.
     thn (rd da_render_config) (\<lambda>cfg.
     thn (lift (getitem_str cfg ''options'')) (\<lambda>opts.
     thn (requests_get ext (mosaic_tilejson_request ext u it opts) []) (\<lambda>resp.
     thn (lift (response_json resp)) (\<lambda>j.
     thn (lift (first_tiles j)) (\<lambda>t.
     thn (modify (\<lambda>s. s\<lparr>da_tiles := Some t\<rparr>)) (\<lambda>_.
     emit (Out t)))))))))"

text \<open>
  \<^verbatim>\<open>
  center = shapely.geometry.shape(aoi).centroid
  m = folium.Map(location=(center.y, center.x), zoom_start=9, tiles="https://server...", attr=...)
  folium.TileLayer(
      tiles=tiles, attr="Planetary Computer", min_zoom=render_config["minZoom"]
  ).add_to(m)
  folium.GeoJson(data=aoi).add_to(m)
  m
  \<close>
\<close>

definition cell_mosaic_map :: "extern \<Rightarrow> (ns_data, unit) py" where
  "cell_mosaic_map ext =
     thn (rd da_aoi) (\<lambda>aoi.
     thn (lift (geometry_centroid ext aoi)) (\<lambda>c.
     thn (modify (\<lambda>s. s\<lparr>da_center := Some c\<rparr>)) (\<lambda>_.
     thn (modify (\<lambda>s. s\<lparr>da_m := Some \<lparr>location = (snd c, fst c), zoom_start = 9,
            map_tiles = basemap_url, map_attr = basemap_attr, layers = []\<rparr>\<rparr>)) (\<lambda>_.
     thn (rd da_tiles) (\<lambda>t.
     thn (rd da_render_config) (\<lambda>cfg.
     thn (lift (getitem_str cfg ''minZoom'')) (\<lambda>mz.
     thn (lift (folium_TileLayer ext t ''Planetary Computer'' (Some mz))) (\<lambda>tl.
     thn (add_to tl) (\<lambda>_.
     thn (rd da_aoi) (\<lambda>aoi'.
     thn (lift (folium_GeoJson ext aoi')) (\<lambda>gj.
     thn (add_to gj) (\<lambda>_.
     emit (OutWidget ''m'')))))))))))))"


text \<open>The single-item map: the cells from the TileJSON request to the map.\<close>

definition item_map_workflow :: "extern \<Rightarrow> (ns_data, unit) py" where
  "item_map_workflow ext = run_cells [cell_tilejson ext, cell_tiles, cell_map ext]"

section \<open>The footprint browser, cell by cell\<close>

text \<open>
  An \<open>ipyleaflet.Map\<close> and an \<open>ipyleaflet.GeoJSON\<close> layer. The map holds its layers by
  reference: the layer added to it is the object that the variable \<open>layer\<close> names.
\<close>

record leaflet_map =
  center :: "real list"
  zoom :: nat
  layout_width :: "string option"
  map_layers :: "string list"

record geojson_layer =
  data :: json

record ns_footprints = world +
  fb_catalog :: "string option"
  fb_search :: "json option"
  fb_items :: "item list option"
  fb_m :: "leaflet_map option"
  fb_layer :: "geojson_layer option"

definition footprint_search :: json where
  "footprint_search = JObj [(''collections'', JArr [JStr ''sentinel-2-l2a'']),
     (''datetime'', JStr ''2023-04-01''),
     (''query'', JObj [(''platform'', JObj [(''eq'', JStr ''Sentinel-2B'')])]),
     (''sortby'', JStr ''datetime''), (''max_items'', JInt 200)]"


text \<open>
  \<^verbatim>\<open>
  def browse(item):
      shape = shapely.geometry.shape(item)
      m.center = tuple(shape.centroid.coords[0])[::-1]

      layer.data = item.geometry
      print(item.id, item.datetime.isoformat())
  \<close>
  \<open>m\<close> and \<open>layer\<close> are the global objects; the \<open>data\<close> of a layer cannot be \<open>None\<close>.
\<close>

definition browse :: "extern \<Rightarrow> item \<Rightarrow> (ns_footprints, unit) py" where
  "browse ext it =
     thn (lift (item_centroid ext it)) (\<lambda>c.
     thn (rd fb_m) (\<lambda>m.
     thn (modify (\<lambda>s. s\<lparr>fb_m := Some (m\<lparr>center := rev c\<rparr>)\<rparr>)) (\<lambda>_.
     thn (rd fb_layer) (\<lambda>l.
     thn (lift (case geometry it of None \<Rightarrow> Inl (LibraryError ''TraitError'') | Some g \<Rightarrow> Inr g)) (\<lambda>g.
     thn (modify (\<lambda>s. s\<lparr>fb_layer := Some (l\<lparr>data := g\<rparr>)\<rparr>)) (\<lambda>_.
     thn (lift (case datetime it of None \<Rightarrow> Inl AttributeError | Some d \<Rightarrow> Inr d)) (\<lambda>d.
     emit (Print (item_id it @ '' '' @ d)))))))))"

text \<open>
  \<open>ipywidgets.interact\<close> calls \<open>browse\<close> once for every selection of the dropdown, one
  call after the other; an exception of a call ends that call only.
\<close>

fun select_all :: "extern \<Rightarrow> item list \<Rightarrow> ns_footprints \<Rightarrow> ns_footprints" where
  "select_all ext [] s = s"
| "select_all ext (it # its) s = select_all ext its (snd (browse ext it s))"

text \<open>
  \<^verbatim>\<open>
  m = ipyleaflet.Map(zoom=3)
  m.layout.width = "600px"
  layer = ipyleaflet.GeoJSON()
  m.add(layer)

  @ipywidgets.interact(item=items)
  def browse(item): ...

  m
  \<close>
  The dropdown starts at the first item, and \<open>browse\<close> is called for it at once.
\<close>

definition cell_browser :: "extern \<Rightarrow> (ns_footprints, unit) py" where
  "cell_browser ext =
     thn (modify (\<lambda>s. s\<lparr>fb_m := Some \<lparr>center = [0, 0], zoom = 3,
            layout_width = None, map_layers = []\<rparr>\<rparr>)) (\<lambda>_.
     thn (rd fb_m) (\<lambda>m.
     thn (modify (\<lambda>s. s\<lparr>fb_m := Some (m\<lparr>layout_width := Some ''600px''\<rparr>)\<rparr>)) (\<lambda>_.
     thn (modify (\<lambda>s. s\<lparr>fb_layer := Some \<lparr>data = JObj []\<rparr>\<rparr>)) (\<lambda>_.
     thn (rd fb_m) (\<lambda>m'.
     thn (modify (\<lambda>s. s\<lparr>fb_m := Some (m'\<lparr>map_layers := map_layers m' @ [''layer'']\<rparr>)\<rparr>)) (\<lambda>_.
     thn (rd fb_items) (\<lambda>its.
     thn (modify (select_all ext (take 1 its))) (\<lambda>_.
     emit (OutWidget ''m'')))))))))"

section \<open>The data of the notebooks' recorded run\<close>

text \<open>
  The answers of the remote service that the notebooks record in their outputs, as a
  concrete instance of the parameters.
\<close>

definition example_item_id :: string where
  "example_item_id = ''S2B_MSIL2A_20220606T080609_R078_T36PUR_20220606T193343''"

definition example_preview_href :: string where
  "example_preview_href = ''https://planetarycomputer.microsoft.com/api/data/v1/item/preview.png?collection=sentinel-2-l2a&item=S2B_MSIL2A_20220606T080609_R078_T36PUR_20220606T193343&assets=visual&asset_bidx=visual%7C1%2C2%2C3&nodata=0''"

definition example_tilejson_href :: string where
  "example_tilejson_href = ''https://planetarycomputer.microsoft.com/api/data/v1/item/tilejson.json?collection=sentinel-2-l2a&item=S2B_MSIL2A_20220606T080609_R078_T36PUR_20220606T193343&assets=visual&asset_bidx=visual%7C1%2C2%2C3&nodata=0''"

definition example_item_tiles :: string where
  "example_item_tiles = ''https://planetarycomputer.microsoft.com/api/data/v1/item/tiles/WebMercatorQuad/{z}/{x}/{y}@1x?collection=sentinel-2-l2a&item=S2B_MSIL2A_20220606T080609_R078_T36PUR_20220606T193343&assets=visual&asset_bidx=visual%7C1%2C2%2C3&nodata=0''"

definition example_bbox :: "real list" where
  "example_bbox = [31.17569761, 8.95381176, 32.17948101, 9.95039568]"

definition example_item :: item where
  "example_item = \<lparr>item_id = example_item_id, collection_id = Some ''sentinel-2-l2a'',
     bbox = Some example_bbox,
     geometry = Some (JObj [(''type'', JStr ''Polygon''), (''coordinates'', JArr [JArr [
        JArr [JFloat 31.17569761, JFloat 8.95381176], JArr [JFloat 32.17948101, JFloat 8.95381176],
        JArr [JFloat 32.17948101, JFloat 9.95039568], JArr [JFloat 31.17569761, JFloat 9.95039568],
        JArr [JFloat 31.17569761, JFloat 8.95381176]]])]),
     assets = [(''rendered_preview'', \<lparr>href = example_preview_href, title = Some ''Rendered preview''\<rparr>),
               (''tilejson'', \<lparr>href = example_tilejson_href, title = Some ''TileJSON with default rendering''\<rparr>)],
     properties = [(''platform'', JStr ''Sentinel-2B''), (''eo:cloud_cover'', JFloat 0.5)],
     datetime = Some ''2022-06-06T08:06:09.024000+00:00''\<rparr>"

definition example_item_json :: json where
  "example_item_json = JObj [(''type'', JStr ''Feature''), (''id'', JStr example_item_id),
     (''collection'', JStr ''sentinel-2-l2a''), (''bbox'', JArr (map JFloat example_bbox))]"

definition example_tilejson :: json where
  "example_tilejson = JObj [(''tilejson'', JStr ''2.2.0''), (''version'', JStr ''1.0.0''),
     (''scheme'', JStr ''xyz''), (''tiles'', JArr [JStr example_item_tiles]),
     (''minzoom'', JInt 0), (''maxzoom'', JInt 24),
     (''bounds'', JArr (map JFloat example_bbox)),
     (''center'', JArr [JFloat 31.677589310000002, JFloat 9.45210372, JInt 0])]"

definition example_searchid :: string where
  "example_searchid = ''3c377cdaf6bddee4f5379ee6707505fd''"

definition example_mosaic_href :: string where
  "example_mosaic_href = ''https://planetarycomputer.microsoft.com/api/data/v1/mosaic/3c377cdaf6bddee4f5379ee6707505fd/tilejson.json''"

definition example_registered :: json where
  "example_registered = JObj [(''searchid'', JStr example_searchid),
     (''links'', JArr [
        JObj [(''rel'', JStr ''metadata''), (''type'', JStr ''application/json''),
              (''href'', JStr ''https://planetarycomputer.microsoft.com/api/data/v1/mosaic/3c377cdaf6bddee4f5379ee6707505fd/info'')],
        JObj [(''rel'', JStr ''tilejson''), (''type'', JStr ''application/json''),
              (''href'', JStr example_mosaic_href)]])]"

definition example_options :: string where
  "example_options = ''assets=B04&assets=B03&assets=B02&nodata=0&color_formula=Gamma RGB 3.2 Saturation 0.8 Sigmoidal RGB 25 0.35''"

definition example_render_config :: json where
  "example_render_config = JObj [(''name'', JStr ''Natural color''),
     (''description'', JStr ''True color composite of visible bands (B04, B03, B02)''),
     (''options'', JStr example_options), (''minZoom'', JInt 9),
     (''legend'', JNull), (''conditions'', JNull)]"

definition example_mosaic_info :: json where
  "example_mosaic_info = JObj [(''renderOptions'', JArr [example_render_config])]"

definition example_mosaic_tiles :: string where
  "example_mosaic_tiles = ''https://planetarycomputer.microsoft.com/api/data/v1/mosaic/tiles/3c377cdaf6bddee4f5379ee6707505fd/WebMercatorQuad/{z}/{x}/{y}@1x?collection=sentinel-2-l2a&assets=B04&assets=B03&assets=B02&nodata=0&color_formula=Gamma+RGB+3.2+Saturation+0.8+Sigmoidal+RGB+25+0.35''"

definition example_mosaic_tilejson :: json where
  "example_mosaic_tilejson = JObj [(''tilejson'', JStr ''2.2.0''),
     (''tiles'', JArr [JStr example_mosaic_tiles]), (''minzoom'', JInt 0), (''maxzoom'', JInt 24)]"

definition example_search :: json where
  "example_search = JObj [(''intersects'', aoi_polygon),
     (''collections'', JStr ''sentinel-2-l2a''), (''query'', cloud_query)]"

definition example_classmap :: json where
  "example_classmap = JObj (map (\<lambda>kc. (fst kc, JArr (map JInt (snd kc)))) chesapeake_classmap)"

text \<open>
  The parameters of a search as the STAC client sends them: in the client's order of keys,
  a single collection name as a list. Of the keyword arguments of a search, those of the
  mosaic search are covered, the one search whose parameters a notebook asks for.
\<close>

definition format_parameter :: "string \<Rightarrow> json \<Rightarrow> json" where
  "format_parameter k v =
     (if k = ''collections'' then (case v of JStr c \<Rightarrow> JArr [JStr c] | _ \<Rightarrow> v) else v)"

definition example_get_parameters :: "json \<Rightarrow> json" where
  "example_get_parameters q = (case q of
       JObj kw \<Rightarrow> JObj (List.map_filter
         (\<lambda>k. map_option (\<lambda>v. (k, format_parameter k v)) (map_of kw k))
         [''collections'', ''intersects'', ''query''])
     | _ \<Rightarrow> q)"

definition example_parameters :: json where
  "example_parameters = JObj [(''collections'', JArr [JStr ''sentinel-2-l2a'']),
     (''intersects'', aoi_polygon), (''query'', cloud_query)]"

definition example_routes :: "(request \<times> json) list" where
  "example_routes =
     [(GET item_url [], example_item_json),
      (GET example_tilejson_href [], example_tilejson),
      (POST register_url example_parameters, example_registered),
      (GET info_url [(''collection'', Some ''sentinel-2-l2a'')], example_mosaic_info),
      (GET (example_mosaic_href @ ''?collection=sentinel-2-l2a&'' @ example_options) [],
         example_mosaic_tilejson),
      (GET classmap_url [], example_classmap)]"

definition example_server :: "request \<Rightarrow> exn + response" where
  "example_server q = (case map_of example_routes q of
       None \<Rightarrow> Inl (RequestException ''ConnectionError'')
     | Some j \<Rightarrow> Inr \<lparr>status_code = 200, body = Some j\<rparr>)"


definition example_from_dict :: "json \<Rightarrow> exn + item" where
  "example_from_dict j =
     (if j = example_item_json then Inr example_item else Inl (LibraryError ''STACTypeError''))"

text \<open>
  The centroid that \<open>shapely\<close> gives for a GeoJSON polygon without holes and with an area,
  in exact arithmetic: the centroid of the area inside the ring. A polygon without
  coordinates is empty, its centroid has no coordinates and \<open>coords[0]\<close> raises
  \<open>IndexError\<close>. Other geometries are outside this instance, which raises for them.
\<close>

definition json_number :: "json \<Rightarrow> real option" where
  "json_number v = (case v of JFloat r \<Rightarrow> Some r | JInt i \<Rightarrow> Some (real_of_int i) | _ \<Rightarrow> None)"

definition json_point :: "json \<Rightarrow> (real \<times> real) option" where
  "json_point v = (case v of
       JArr (x # y # zs) \<Rightarrow>
         (case (json_number x, json_number y) of (Some a, Some b) \<Rightarrow> Some (a, b) | _ \<Rightarrow> None)
     | _ \<Rightarrow> None)"

fun ring_points :: "json list \<Rightarrow> (real \<times> real) list option" where
  "ring_points [] = Some []"
| "ring_points (v # vs) =
     (case json_point v of None \<Rightarrow> None
      | Some p \<Rightarrow> (case ring_points vs of None \<Rightarrow> None | Some ps \<Rightarrow> Some (p # ps)))"

text \<open>Twice the signed area of a closed ring, and the sums of its centroid formula.\<close>

fun shoelace :: "(real \<times> real) list \<Rightarrow> real \<times> real \<times> real" where
  "shoelace (p # q # ps) =
     (case shoelace (q # ps) of (a, sx, sy) \<Rightarrow>
        (a + (fst p * snd q - fst q * snd p),
         sx + (fst p + fst q) * (fst p * snd q - fst q * snd p),
         sy + (snd p + snd q) * (fst p * snd q - fst q * snd p)))"
| "shoelace ps = (0, 0, 0)"

definition polygon_centroid :: "json \<Rightarrow> exn + real \<times> real" where
  "polygon_centroid g =
     (if getitem_str g ''type'' \<noteq> Inr (JStr ''Polygon'') then Inl (LibraryError ''GeometryTypeError'')
      else (case getitem_str g ''coordinates'' of
          Inr (JArr []) \<Rightarrow> Inl IndexError
        | Inr (JArr [JArr ring]) \<Rightarrow>
            (if ring = [] then Inl IndexError
             else (case ring_points ring of
               None \<Rightarrow> Inl (LibraryError ''GeometryTypeError'')
             | Some ps \<Rightarrow>
                 (case shoelace ps of (a, sx, sy) \<Rightarrow>
                    if a = 0 then Inl (LibraryError ''GeometryTypeError'')
                    else Inr (sx / (3 * a), sy / (3 * a)))))
        | _ \<Rightarrow> Inl (LibraryError ''GeometryTypeError'')))"

text \<open>\<open>shapely.geometry.shape(item)\<close> is the shape of the item's geometry.\<close>

definition example_item_centroid :: "item \<Rightarrow> exn + real list" where
  "example_item_centroid it = (case geometry it of
       None \<Rightarrow> Inl AttributeError
     | Some g \<Rightarrow> (case polygon_centroid g of Inl e \<Rightarrow> Inl e | Inr c \<Rightarrow> Inr [fst c, snd c]))"

definition chesapeake_item :: item where
  "chesapeake_item = \<lparr>item_id = ''BayWide_1m_LU_E1700000_N1960000'',
     collection_id = Some ''chesapeake-lu'', bbox = None, geometry = None,
     assets = [(''data'', \<lparr>href = ''https://landcoverdata.blob.core.windows.net/chesapeake/lu/BayWide_1m_LU_E1700000_N1960000.tif'', title = Some ''Land Use Classes''\<rparr>),
               (''tilejson'', \<lparr>href = ''tilejson'', title = Some ''TileJSON with default rendering''\<rparr>),
               (''rendered_preview'', \<lparr>href = ''preview'', title = Some ''Rendered preview''\<rparr>)],
     properties = [(''start_datetime'', JStr ''2013-01-01T00:00:00Z''), (''datetime'', JNull),
                   (''end_datetime'', JStr ''2014-12-31T23:59:59Z'')],
     datetime = None\<rparr>"

text \<open>
  The first two items of the footprint browser's recorded run. The geometry of the first
  is the one the notebook's GeoJSON layer holds; the notebook does not record the geometry
  of the second, which is a quadrilateral here.
\<close>

definition footprint_geometry_a :: json where
  "footprint_geometry_a = JObj [(''type'', JStr ''Polygon''), (''coordinates'', JArr [JArr [
        JArr [JFloat (- 120.014725), JFloat 81.9309989],
        JArr [JFloat (- 119.98935), JFloat 81.8970757],
        JArr [JFloat (- 119.98349), JFloat 81.897147],
        JArr [JFloat (- 119.98326), JFloat 81.8968378],
        JArr [JFloat (- 119.97307), JFloat 81.8969618],
        JArr [JFloat (- 119.907745), JFloat 81.7904203],
        JArr [JFloat (- 119.87456), JFloat 81.7360749],
        JArr [JFloat (- 119.83392), JFloat 81.6689169],
        JArr [JFloat (- 119.8512), JFloat 81.6687068],
        JArr [JFloat (- 119.85118), JFloat 81.6686775],
        JArr [JFloat (- 119.85184), JFloat 81.6686696],
        JArr [JFloat (- 119.74194), JFloat 81.4666119],
        JArr [JFloat (- 119.73891), JFloat 81.4666488],
        JArr [JFloat (- 119.73883), JFloat 81.4665012],
        JArr [JFloat (- 119.72595), JFloat 81.4666571],
        JArr [JFloat (- 119.62312), JFloat 81.2390104],
        JArr [JFloat (- 119.638275), JFloat 81.2388263],
        JArr [JFloat (- 119.638275), JFloat 81.2388144],
        JArr [JFloat (- 119.63887), JFloat 81.2388072],
        JArr [JFloat (- 119.56386), JFloat 81.0356683],
        JArr [JFloat (- 119.561966), JFloat 81.0356914],
        JArr [JFloat (- 119.561966), JFloat 81.0356836],
        JArr [JFloat (- 119.560486), JFloat 81.0357015],
        JArr [JFloat (- 119.560486), JFloat 81.0356855],
        JArr [JFloat (- 119.55936), JFloat 81.0356991],
        JArr [JFloat (- 119.55928), JFloat 81.0354903],
        JArr [JFloat (- 119.557236), JFloat 81.0355152],
        JArr [JFloat (- 119.55719), JFloat 81.0354205],
        JArr [JFloat (- 119.54927), JFloat 81.0355168],
        JArr [JFloat (- 119.52269), JFloat 80.9513654],
        JArr [JFloat (- 122.69284), JFloat 80.9292576],
        JArr [JFloat (- 123.37811), JFloat 81.907481],
        JArr [JFloat (- 120.014725), JFloat 81.9309989]]])]"

definition footprint_item_a :: item where
  "footprint_item_a = \<lparr>item_id = ''S2B_MSIL2A_20230401T001159_R059_T11XML_20230401T021155'',
     collection_id = Some ''sentinel-2-l2a'',
     bbox = Some [- 123.37811, 80.9292576, - 119.52269, 81.9309989],
     geometry = Some footprint_geometry_a,
     assets = [], properties = [], datetime = Some ''2023-04-01T00:11:59.024000+00:00''\<rparr>"

definition footprint_geometry_b :: json where
  "footprint_geometry_b = JObj [(''type'', JStr ''Polygon''), (''coordinates'', JArr [JArr [
        JArr [JInt (- 124), JInt 80], JArr [JInt (- 118), JInt 80], JArr [JInt (- 118), JInt 81],
        JArr [JInt (- 124), JInt 81], JArr [JInt (- 124), JInt 80]]])]"

definition footprint_item_b :: item where
  "footprint_item_b = \<lparr>item_id = ''S2B_MSIL2A_20230401T001159_R059_T11XMK_20230401T021508'',
     collection_id = Some ''sentinel-2-l2a'', bbox = Some [- 124, 80, - 118, 81],
     geometry = Some footprint_geometry_b,
     assets = [], properties = [], datetime = Some ''2023-04-01T00:11:59.024000+00:00''\<rparr>"


definition example_get_items :: "json \<Rightarrow> exn + item list" where
  "example_get_items q =
     (if q = footprint_search then Inr [footprint_item_a, footprint_item_b]
      else Inr [chesapeake_item])"

text \<open>
  \<open>str()\<close> of \<open>None\<close>, of a \<open>bool\<close> and of an \<open>int\<close>, the values that are not strings in
  the properties of the recorded items. A float or a container is not rendered by this
  instance; no statement below evaluates it there.
\<close>

definition example_str :: "json \<Rightarrow> string" where
  "example_str v = (case v of JNull \<Rightarrow> ''None'' | JBool b \<Rightarrow> (if b then ''True'' else ''False'')
     | JInt i \<Rightarrow> show_int i | _ \<Rightarrow> ''...'')"

text \<open>
  The outside world of the recorded run. Its float operations are the exact ones, without
  rounding; it knows no tile set by name and reads no GeoJSON from a string.
\<close>

definition example_ext :: extern where
  "example_ext = \<lparr>server = example_server, client_open = (\<lambda>u. Inr ()),
     get_parameters = example_get_parameters, get_items = example_get_items,
     classification_classes = (\<lambda>c. Inr chesapeake_classes),
     from_dict = example_from_dict, py_str = example_str,
     fadd = (+), fsub = (-), ftruediv = (/),
     item_centroid = example_item_centroid,
     geometry_centroid = polygon_centroid,
     to_rgba = Inr, open_rasterio = (\<lambda>u. Inr ()),
     named_tiles = (\<lambda>u. Inl ValueError),
     geojson_source = (\<lambda>u. Inl JSONDecodeError)\<rparr>"








definition fresh_data :: ns_data where
  "fresh_data = \<lparr>trace = [], da_r = None, da_item = None, da_asset = None, da_tiles = None,
     da_center = None, da_m = None, da_catalog = None, da_aoi = None, da_collection = None,
     da_query = None, da_search = None, da_r_register = None, da_registered = None,
     da_tilejson_url = None, da_mosaic_info = None, da_render_config = None\<rparr>"

definition fresh_chesapeake :: ns_chesapeake where
  "fresh_chesapeake = \<lparr>trace = [], ch_catalog = None, ch_bbox = None, ch_items = None,
     ch_datetime = None, ch_search = None, ch_asset_href = None, ch_class_names = None,
     ch_class_values = None, ch_classmap = None, ch_colors = None, ch_ticks = None,
     ch_labels = None, ch_ds = None\<rparr>"

definition chesapeake_after_query :: ns_chesapeake where
  "chesapeake_after_query = fresh_chesapeake\<lparr>ch_catalog := Some stac_url,
     ch_items := Some (ItemsList [chesapeake_item])\<rparr>"

definition fresh_footprints :: ns_footprints where
  "fresh_footprints = \<lparr>trace = [], fb_catalog = None, fb_search = None, fb_items = None,
     fb_m = None, fb_layer = None\<rparr>"

text \<open>The namespaces of the recorded run at the points where a workflow starts.\<close>

definition data_after_item :: ns_data where
  "data_after_item = fresh_data\<lparr>da_item := Some example_item\<rparr>"

definition data_before_mosaic :: ns_data where
  "data_before_mosaic = fresh_data\<lparr>da_item := Some example_item,
     da_aoi := Some aoi_polygon, da_search := Some example_search\<rparr>"

definition data_after_info :: ns_data where
  "data_after_info = data_before_mosaic\<lparr>da_registered := Some example_registered,
     da_tilejson_url := Some (JStr example_mosaic_href),
     da_render_config := Some example_render_config\<rparr>"

definition data_after_register :: ns_data where
  "data_after_register = data_before_mosaic\<lparr>da_registered := Some example_registered\<rparr>"

definition browser_ready :: ns_footprints where
  "browser_ready = fresh_footprints\<lparr>
     fb_items := Some [footprint_item_a, footprint_item_b],
     fb_m := Some \<lparr>center = [0, 0], zoom = 3, layout_width = Some ''600px'',
                    map_layers = [''layer'']\<rparr>,
     fb_layer := Some \<lparr>data = JObj []\<rparr>\<rparr>"

text \<open>The cells of each notebook that run after its items are fetched.\<close>

definition data_cells_after_fetch :: "extern \<Rightarrow> (ns_data, unit) py list" where
  "data_cells_after_fetch ext =
     [cell_preview, cell_print_tilejson, cell_tilejson ext, cell_tiles, cell_map ext,
      cell_search ext, cell_register ext, cell_tilejson_url, cell_mosaic_info ext,
      cell_mosaic_tiles ext, cell_mosaic_map ext]"

definition chesapeake_cells_after_fetch :: "extern \<Rightarrow> (ns_chesapeake, unit) py list" where
  "chesapeake_cells_after_fetch ext =
     [cell_asset_href, cell_assets_table, cell_properties_table ext, cell_classifications ext,
      cell_classmap ext, cell_colormap ext, cell_open_raster ext, cell_plot]"


text \<open>The placeholders of a tile URL template.\<close>

definition is_template :: "json \<Rightarrow> bool" where
  "is_template t = (case t of JStr u \<Rightarrow> sublist ''{z}/{x}/{y}'' u | _ \<Rightarrow> False)"

text \<open>The service answers a request with a response whose body is the document \<open>j\<close>.\<close>

definition answers :: "extern \<Rightarrow> request \<Rightarrow> json \<Rightarrow> bool" where
  "answers ext q j = (case server ext q of Inl e \<Rightarrow> False | Inr resp \<Rightarrow> body resp = Some j)"


text \<open>A cell leaves a part \<open>f\<close> of the namespace as it was, however the cell ends.\<close>

definition preserves :: "('s \<Rightarrow> 'a) \<Rightarrow> ('s, 'b) py \<Rightarrow> bool" where
  "preserves f m = (\<forall>s. f (snd (m s)) = f s)"

section \<open>Running cells\<close>

lemma thn_ret: "thn (ret x) f s = f x s"
  by (simp add: thn_def ret_def)

lemma thn_throw: "thn (throw e) f s = (Inl e, s)"
  by (simp add: thn_def throw_def)

lemma thn_lift: "thn (lift r) f s = (case r of Inl e \<Rightarrow> (Inl e, s) | Inr x \<Rightarrow> f x s)"
  by (simp add: thn_def lift_def split: sum.splits)

lemma thn_rd: "thn (rd var) f s = (case var s of None \<Rightarrow> (Inl NameError, s) | Some v \<Rightarrow> f v s)"
  by (simp add: thn_def rd_def split: option.splits)

lemma thn_modify: "thn (modify g) f s = f () (g s)"
  by (simp add: thn_def modify_def)

lemma thn_emit: "thn (emit ev) f s = f () (s\<lparr>trace := trace s @ [ev]\<rparr>)"
  by (simp add: emit_def thn_modify)

lemma thn_assoc: "thn (thn m f) g = thn m (\<lambda>x. thn (f x) g)"
  by (auto simp: thn_def fun_eq_iff split: prod.splits sum.splits)

lemma thn_requests_get:
  "thn (requests_get ext url ps) f s =
     (case server ext (GET url ps) of
        Inl e \<Rightarrow> (Inl e, s\<lparr>trace := trace s @ [Request (GET url ps)]\<rparr>)
      | Inr resp \<Rightarrow> f resp (s\<lparr>trace := trace s @ [Request (GET url ps)]\<rparr>))"
  by (simp add: requests_get_def thn_assoc thn_emit thn_lift)

lemma thn_requests_post:
  "thn (requests_post ext url p) f s =
     (case server ext (POST url p) of
        Inl e \<Rightarrow> (Inl e, s\<lparr>trace := trace s @ [Request (POST url p)]\<rparr>)
      | Inr resp \<Rightarrow> f resp (s\<lparr>trace := trace s @ [Request (POST url p)]\<rparr>))"
  by (simp add: requests_post_def thn_assoc thn_emit thn_lift)

lemmas thn_simps = thn_ret thn_throw thn_lift thn_rd thn_modify thn_emit thn_requests_get thn_requests_post

lemma emit_apply: "emit ev s = (Inr (), s\<lparr>trace := trace s @ [ev]\<rparr>)"
  by (simp add: emit_def modify_def)

lemma modify_apply: "modify g s = (Inr (), g s)"
  by (simp add: modify_def)

lemma fetch_loop_run:
  "dts \<noteq> [] \<Longrightarrow> fetch_loop bb dts s =
     (Inr (), s\<lparr>trace := trace s @ map (\<lambda>dt. Print (''Fetching '' @ dt)) dts,
               ch_datetime := Some (last dts),
               ch_search := Some (search_kwargs bb (last dts))\<rparr>)"
proof (induction dts arbitrary: s)
  case Nil
  then show ?case by simp
next
  case (Cons dt dts)
  show ?case
  proof (cases "dts = []")
    case True
    then show ?thesis by (simp add: thn_simps ret_def)
  next
    case False
    then show ?thesis by (simp add: thn_simps Cons.IH)
  qed
qed

lemma searches_in_append: "searches_in (xs @ ys) = searches_in xs @ searches_in ys"
  by (induction xs rule: searches_in.induct) simp_all

lemma searches_in_prints: "searches_in (map (\<lambda>x. Print (f x)) xs) = []"
  by (induction xs) simp_all


declare show_nat.simps [simp del]

lemma thn_fetch_loop:
  "dts \<noteq> [] \<Longrightarrow> thn (fetch_loop bb dts) f s =
     f () (s\<lparr>trace := trace s @ map (\<lambda>dt. Print (''Fetching '' @ dt)) dts,
              ch_datetime := Some (last dts),
              ch_search := Some (search_kwargs bb (last dts))\<rparr>)"
  by (simp add: thn_def fetch_loop_run)

lemma cell_query_run:
  assumes "datetimes \<noteq> []" and "client_open ext stac_url = Inr ()"
  shows "cell_query ext datetimes s =
    (let q = search_kwargs (query_bbox ext) (last datetimes);
         s1 = s\<lparr>trace := trace s @ OpenCatalog stac_url
                   # map (\<lambda>dt. Print (''Fetching '' @ dt)) datetimes @ [Search q],
                 ch_catalog := Some stac_url, ch_bbox := Some (query_bbox ext),
                 ch_items := Some (ItemsDict []), ch_datetime := Some (last datetimes),
                 ch_search := Some q\<rparr>
     in case get_items ext q of
          Inl e \<Rightarrow> (Inl e, s1)
        | Inr xs \<Rightarrow> (Inr (), s1\<lparr>trace := trace s1
                          @ [Print (''Returned '' @ show_nat (length xs) @ '' Items'')],
                        ch_items := Some (ItemsList xs)\<rparr>))"
  using assms
  by (simp add: cell_query_def thn_simps thn_fetch_loop emit_apply Let_def split: sum.splits)

section \<open>The Chesapeake query\<close>

text \<open>
  C8. In the Chesapeake notebook the items come from the search object built in the last
  iteration over \<open>datetimes\<close> only. For a non-empty list \<open>datetimes\<close> and a catalog that
  opens, the query cell prints one line for every element of the list, then runs a single
  search, the one built for the last element, after the loop; no other search is run. When
  that search returns, \<open>items\<close> is the list it returned; when it raises, \<open>items\<close> is
  still the empty \<open>dict\<close> of its first binding, which is never given an entry.
\<close>

theorem query_uses_last_search:
  assumes "datetimes \<noteq> []" and "client_open ext stac_url = Inr ()"
  shows "case cell_query ext datetimes s of (res, s') \<Rightarrow>
     (let q = search_kwargs (query_bbox ext) (last datetimes);
          new = drop (length (trace s)) (trace s')
      in searches_in new = [q] \<and>
         take (length datetimes + 2) new
           = OpenCatalog stac_url # map (\<lambda>dt. Print (''Fetching '' @ dt)) datetimes @ [Search q] \<and>
         (case get_items ext q of
            Inr xs \<Rightarrow> res = Inr () \<and> ch_items s' = Some (ItemsList xs)
          | Inl e \<Rightarrow> res = Inl e \<and> ch_items s' = Some (ItemsDict [])))"
  by (simp add: cell_query_run [OF assms] Let_def
        searches_in_append searches_in_prints split: sum.splits)


theorem query_uses_last_search_witness:
  "[''2012'', ''2013''] \<noteq> [] \<and> client_open example_ext stac_url = Inr () \<and>
   fst (cell_query example_ext [''2012'', ''2013''] fresh_chesapeake) = Inr () \<and>
   searches_in (trace (snd (cell_query example_ext [''2012'', ''2013''] fresh_chesapeake)))
     = [search_kwargs (query_bbox example_ext) ''2013''] \<and>
   ch_items (snd (cell_query example_ext [''2012'', ''2013''] fresh_chesapeake))
     = Some (ItemsList [chesapeake_item])"
proof -
  have h1: "[''2012'', ''2013''] \<noteq> ([] :: string list)" by simp
  have h2: "client_open example_ext stac_url = Inr ()" by (simp add: example_ext_def)
  have g: "get_items example_ext (search_kwargs (query_bbox example_ext) ''2013'')
     = Inr [chesapeake_item]"
    by (simp add: example_ext_def example_get_items_def search_kwargs_def footprint_search_def)
  show ?thesis
    using query_uses_last_search [OF h1 h2, of fresh_chesapeake] h2 g
    by (simp add: fresh_chesapeake_def case_prod_unfold Let_def)
qed



lemma answersD: "answers ext q j \<Longrightarrow> \<exists>resp. server ext q = Inr resp \<and> body resp = Some j"
  by (auto simp: answers_def split: sum.splits)

lemma response_json_Some: "body resp = Some j \<Longrightarrow> response_json resp = Inr j"
  by (simp add: response_json_def)


section \<open>Frames: what a cell leaves unchanged\<close>

lemma preserves_ret: "preserves f (ret x)"
  by (simp add: preserves_def ret_def)

lemma preserves_lift: "preserves f (lift r)"
  by (simp add: preserves_def lift_def)

lemma preserves_rd: "preserves f (rd var)"
  by (simp add: preserves_def rd_def split: option.splits)

lemma preserves_modify: "(\<And>s. f (g s) = f s) \<Longrightarrow> preserves f (modify g)"
  by (simp add: preserves_def modify_def)

lemma preserves_thn:
  assumes "preserves f m" and "\<And>x. preserves f (k x)"
  shows "preserves f (thn m k)"
proof (unfold preserves_def, intro allI)
  fix s
  obtain r s1 where ms: "m s = (r, s1)" by (cases "m s")
  have "f (snd (m s)) = f s" using assms(1) by (simp add: preserves_def)
  with ms have f1: "f s1 = f s" by simp
  show "f (snd (thn m k s)) = f s"
  proof (cases r)
    case (Inl e)
    with ms f1 show ?thesis by (simp add: thn_def)
  next
    case (Inr x)
    have "f (snd (k x s1)) = f s1" using assms(2) [of x] by (simp add: preserves_def)
    with Inr ms f1 show ?thesis by (simp add: thn_def)
  qed
qed

lemma preserves_emit: "(\<And>s t. f (s\<lparr>trace := t\<rparr>) = f s) \<Longrightarrow> preserves f (emit ev)"
  by (simp add: emit_def preserves_modify)

lemma preserves_requests_get:
  "(\<And>s t. f (s\<lparr>trace := t\<rparr>) = f s) \<Longrightarrow> preserves f (requests_get ext url ps)"
  unfolding requests_get_def by (intro preserves_thn preserves_emit preserves_lift)

lemma preserves_requests_post:
  "(\<And>s t. f (s\<lparr>trace := t\<rparr>) = f s) \<Longrightarrow> preserves f (requests_post ext url p)"
  unfolding requests_post_def by (intro preserves_thn preserves_emit preserves_lift)

lemmas preserves_intros =
  preserves_thn preserves_ret preserves_lift preserves_rd preserves_modify preserves_emit
  preserves_requests_get preserves_requests_post

lemma preserves_data_cells:
  assumes "c \<in> set (data_cells_after_fetch ext)"
  shows "preserves da_item c"
proof -
  have "preserves da_item cell_preview"
    unfolding cell_preview_def by (intro preserves_intros) simp_all
  moreover have "preserves da_item cell_print_tilejson"
    unfolding cell_print_tilejson_def by (intro preserves_intros) simp_all
  moreover have "preserves da_item (cell_tilejson ext)"
    unfolding cell_tilejson_def by (intro preserves_intros) simp_all
  moreover have "preserves da_item cell_tiles"
    unfolding cell_tiles_def by (intro preserves_intros) simp_all
  moreover have "preserves da_item (cell_map ext)"
    unfolding cell_map_def add_to_def by (intro preserves_intros) simp_all
  moreover have "preserves da_item (cell_search ext)"
    unfolding cell_search_def by (intro preserves_intros) simp_all
  moreover have "preserves da_item (cell_register ext)"
    unfolding cell_register_def by (intro preserves_intros) simp_all
  moreover have "preserves da_item cell_tilejson_url"
    unfolding cell_tilejson_url_def by (intro preserves_intros) simp_all
  moreover have "preserves da_item (cell_mosaic_info ext)"
    unfolding cell_mosaic_info_def by (intro preserves_intros) simp_all
  moreover have "preserves da_item (cell_mosaic_tiles ext)"
    unfolding cell_mosaic_tiles_def by (intro preserves_intros) simp_all
  moreover have "preserves da_item (cell_mosaic_map ext)"
    unfolding cell_mosaic_map_def add_to_def by (intro preserves_intros) simp_all
  ultimately show ?thesis using assms by (auto simp: data_cells_after_fetch_def)
qed

lemma preserves_first_item: "preserves f first_item"
  unfolding first_item_def by (intro preserves_intros)

lemma preserves_chesapeake_cells:
  assumes "c \<in> set (chesapeake_cells_after_fetch ext)"
  shows "preserves ch_items c"
proof -
  have "preserves ch_items cell_asset_href"
    unfolding cell_asset_href_def by (intro preserves_intros preserves_first_item) simp_all
  moreover have "preserves ch_items cell_assets_table"
    unfolding cell_assets_table_def by (intro preserves_intros preserves_first_item) simp_all
  moreover have "preserves ch_items (cell_properties_table ext)"
    unfolding cell_properties_table_def by (intro preserves_intros preserves_first_item) simp_all
  moreover have "preserves ch_items (cell_classifications ext)"
    unfolding cell_classifications_def by (intro preserves_intros) simp_all
  moreover have "preserves ch_items (cell_classmap ext)"
    unfolding cell_classmap_def by (intro preserves_intros) simp_all
  moreover have "preserves ch_items (cell_colormap ext)"
    unfolding cell_colormap_def by (intro preserves_intros) simp_all
  moreover have "preserves ch_items (cell_open_raster ext)"
    unfolding cell_open_raster_def by (intro preserves_intros preserves_first_item) simp_all
  moreover have "preserves ch_items cell_plot"
    unfolding cell_plot_def by (intro preserves_intros) simp_all
  ultimately show ?thesis using assms by (auto simp: chesapeake_cells_after_fetch_def)
qed

lemma preserves_browse: "preserves fb_items (browse ext it)"
  unfolding browse_def by (intro preserves_intros) simp_all

lemma select_all_items: "fb_items (select_all ext its s) = fb_items s"
proof (induction its arbitrary: s)
  case Nil
  show ?case by simp
next
  case (Cons it its)
  have "fb_items (snd (browse ext it s)) = fb_items s"
    using preserves_browse [of ext it] by (simp add: preserves_def)
  with Cons.IH show ?case by simp
qed

lemma preserves_cell_browser: "preserves fb_items (cell_browser ext)"
  unfolding cell_browser_def
  by (intro preserves_intros) (simp_all add: select_all_items)

text \<open>
  C7. A catalog item is not changed once it is fetched. Every cell of the data API
  notebook that runs after the item is fetched leaves the variable \<open>item\<close> as it was, every
  cell of the Chesapeake notebook after the query leaves \<open>items\<close> as it was, and in the
  footprint browser every call of \<open>browse\<close>, any sequence of selections and the cell that
  builds the browser leave \<open>items\<close> as it was: each use of an item is a read of its
  attributes. This holds for every behaviour of the service and the libraries, and also
  when the cell raises.
\<close>

theorem items_are_only_read:
  "(c \<in> set (data_cells_after_fetch ext) \<longrightarrow> da_item (snd (c sd)) = da_item sd) \<and>
   (c' \<in> set (chesapeake_cells_after_fetch ext) \<longrightarrow> ch_items (snd (c' sc)) = ch_items sc) \<and>
   fb_items (snd (browse ext it sf)) = fb_items sf \<and>
   fb_items (select_all ext its sf) = fb_items sf \<and>
   fb_items (snd (cell_browser ext sf)) = fb_items sf"
  using preserves_data_cells [of c ext] preserves_chesapeake_cells [of c' ext]
    preserves_browse [of ext it] preserves_cell_browser [of ext]
  by (simp add: preserves_def select_all_items)


theorem items_are_only_read_witness:
  "cell_map example_ext \<in> set (data_cells_after_fetch example_ext) \<and>
   da_item (snd (cell_map example_ext data_after_item)) = Some example_item \<and>
   cell_open_raster example_ext \<in> set (chesapeake_cells_after_fetch example_ext) \<and>
   ch_items (snd (cell_open_raster example_ext chesapeake_after_query))
     = Some (ItemsList [chesapeake_item]) \<and>
   fb_items (select_all example_ext [footprint_item_b, footprint_item_a] browser_ready)
     = Some [footprint_item_a, footprint_item_b]"
proof -
  have m1: "cell_map example_ext \<in> set (data_cells_after_fetch example_ext)"
    by (simp add: data_cells_after_fetch_def)
  have m2: "cell_open_raster example_ext \<in> set (chesapeake_cells_after_fetch example_ext)"
    by (simp add: chesapeake_cells_after_fetch_def)
  show ?thesis
    using m1 m2
      items_are_only_read [of "cell_map example_ext" example_ext data_after_item
        "cell_open_raster example_ext" chesapeake_after_query
        footprint_item_a browser_ready "[footprint_item_b, footprint_item_a]"]
    by (simp add: data_after_item_def browser_ready_def chesapeake_after_query_def)
qed

section \<open>The colorbar labels of the Chesapeake notebook\<close>

lemma map_of_dict_setitem: "map_of (dict_setitem d k v) = (map_of d)(k \<mapsto> v)"
  by (induction d k v rule: dict_setitem.induct) (auto simp: fun_eq_iff)

lemma set_dict_setitem: "set (dict_setitem d k v) \<subseteq> insert (k, v) (set d)"
  by (induction d k v rule: dict_setitem.induct) auto

lemma keys_dict_setitem:
  "map fst (dict_setitem d k v) = (if k \<in> set (map fst d) then map fst d else map fst d @ [k])"
  by (induction d k v rule: dict_setitem.induct) auto

lemma distinct_dict_setitem:
  "distinct (map fst d) \<Longrightarrow> distinct (map fst (dict_setitem d k v))"
  by (simp add: keys_dict_setitem)

lemma set_fold_setitem:
  "set (foldl (\<lambda>d x. dict_setitem d (f x) (g x)) d0 xs) \<subseteq> set d0 \<union> (\<lambda>x. (f x, g x)) ` set xs"
proof (induction xs arbitrary: d0)
  case Nil
  show ?case by simp
next
  case (Cons x xs)
  have "set (foldl (\<lambda>d x. dict_setitem d (f x) (g x)) (dict_setitem d0 (f x) (g x)) xs)
        \<subseteq> set (dict_setitem d0 (f x) (g x)) \<union> (\<lambda>x. (f x, g x)) ` set xs"
    by (rule Cons.IH)
  with set_dict_setitem [of d0 "f x" "g x"] show ?case by auto
qed

lemma distinct_fold_setitem:
  "distinct (map fst d0) \<Longrightarrow>
   distinct (map fst (foldl (\<lambda>d x. dict_setitem d (f x) (g x)) d0 xs))"
  by (induction xs arbitrary: d0) (simp_all add: distinct_dict_setitem)

lemma map_of_fold_setitem:
  "map_of (foldl (\<lambda>d x. dict_setitem d (f x) (g x)) d0 xs)
   = map_of d0 ++ map_of (rev (map (\<lambda>x. (f x, g x)) xs))"
proof (induction xs arbitrary: d0)
  case Nil
  show ?case by simp
next
  case (Cons x xs)
  show ?case
    by (simp add: Cons.IH map_of_dict_setitem map_add_def fun_eq_iff split: option.splits)
qed

lemma class_names_subset: "set (class_names cls) \<subseteq> set cls"
  using set_fold_setitem [of fst snd "[]" cls] by (auto simp: class_names_def)

lemma class_names_distinct: "distinct (map fst (class_names cls))"
  unfolding class_names_def by (rule distinct_fold_setitem) simp

lemma class_names_lookup: "map_of (class_names cls) = map_of (rev cls)"
  by (simp add: class_names_def map_of_fold_setitem)

lemma class_values_lookup:
  "map_of (class_values names) = map_of (rev (map (\<lambda>kv. (snd kv, fst kv)) names))"
  by (simp add: class_values_def map_of_fold_setitem)

lemma class_values_SomeD:
  assumes "map_of (class_values (class_names cls)) v = Some d"
  shows "(d, v) \<in> set (class_names cls)"
proof -
  from assms have "(v, d) \<in> set (rev (map (\<lambda>kv. (snd kv, fst kv)) (class_names cls)))"
    by (simp only: class_values_lookup) (rule map_of_SomeD)
  then show ?thesis by auto
qed

lemma class_values_None:
  assumes "\<forall>x\<in>set cls. snd x \<noteq> v"
  shows "map_of (class_values (class_names cls)) v = None"
proof (cases "map_of (class_values (class_names cls)) v")
  case None
  then show ?thesis .
next
  case (Some d)
  then have "(d, v) \<in> set cls" using class_values_SomeD class_names_subset by fastforce
  with assms show ?thesis by auto
qed

lemma class_names_Some:
  assumes "(d, v) \<in> set cls" and "\<forall>x\<in>set cls. fst x = d \<longrightarrow> snd x = v"
  shows "map_of (class_names cls) d = Some v"
proof -
  from assms(1) have "d \<in> fst ` set (rev cls)" by force
  then obtain v' where v': "map_of (rev cls) d = Some v'"
    by (metis map_of_eq_None_iff not_Some_eq)
  then have "(d, v') \<in> set cls" by (auto dest: map_of_SomeD)
  with assms(2) have "v' = v" by auto
  with v' show ?thesis by (simp add: class_names_lookup)
qed

lemma class_values_Some:
  assumes "(d, v) \<in> set cls"
    and "\<forall>x\<in>set cls. snd x = v \<longrightarrow> fst x = d"
    and "\<forall>x\<in>set cls. fst x = d \<longrightarrow> snd x = v"
  shows "map_of (class_values (class_names cls)) v = Some d"
proof -
  have "map_of (class_names cls) d = Some v" using assms(1,3) by (rule class_names_Some)
  then have "(d, v) \<in> set (class_names cls)" by (rule map_of_SomeD)
  then have "v \<in> fst ` set (rev (map (\<lambda>kv. (snd kv, fst kv)) (class_names cls)))" by force
  then obtain d' where d': "map_of (class_values (class_names cls)) v = Some d'"
    unfolding class_values_lookup by (metis map_of_eq_None_iff not_Some_eq)
  then have "(d', v) \<in> set cls" using class_values_SomeD class_names_subset by fastforce
  with assms(2) have "d' = d" by auto
  with d' show ?thesis by simp
qed

lemma colorbar_labels_nth:
  "t < N \<Longrightarrow> colorbar_labels cls N ! t = dict_get (class_values (class_names cls)) (int t) ''nodata''"
  by (simp add: colorbar_labels_def labels_def ticks_def)

lemma distinct_map_eq:
  "distinct (map f xs) \<Longrightarrow> x \<in> set xs \<Longrightarrow> y \<in> set xs \<Longrightarrow> f x = f y \<Longrightarrow> x = y"
  by (auto simp: distinct_map inj_on_def)

lemma class_inverse:
  assumes "distinct (map fst cls)" and "distinct (map snd cls)"
  shows "map_of (class_values (class_names cls)) v = Some d \<longleftrightarrow> map_of (class_names cls) d = Some v"
proof
  assume "map_of (class_values (class_names cls)) v = Some d"
  then have "(d, v) \<in> set (class_names cls)" by (rule class_values_SomeD)
  with class_names_distinct show "map_of (class_names cls) d = Some v" by simp
next
  assume "map_of (class_names cls) d = Some v"
  then have "(d, v) \<in> set (class_names cls)" by (rule map_of_SomeD)
  then have in_cls: "(d, v) \<in> set cls" using class_names_subset by auto
  have "\<forall>x\<in>set cls. snd x = v \<longrightarrow> fst x = d"
  proof (intro ballI impI)
    fix x assume "x \<in> set cls" "snd x = v"
    with assms(2) in_cls have "x = (d, v)" by (intro distinct_map_eq [of snd cls]) auto
    then show "fst x = d" by simp
  qed
  moreover have "\<forall>x\<in>set cls. fst x = d \<longrightarrow> snd x = v"
  proof (intro ballI impI)
    fix x assume "x \<in> set cls" "fst x = d"
    with assms(1) in_cls have "x = (d, v)" by (intro distinct_map_eq [of fst cls]) auto
    then show "snd x = v" by simp
  qed
  ultimately show "map_of (class_values (class_names cls)) v = Some d"
    using in_cls by (intro class_values_Some)
qed



text \<open>
  C9, as amended. For every tick \<open>t\<close> below the number \<open>N\<close> of colours: the label at \<open>t\<close>
  is \<open>nodata\<close> when no class has the value \<open>t\<close>; it is the description \<open>d\<close> of a class
  with the value \<open>t\<close> when that class is the only one with the value \<open>t\<close> and no class
  with the description \<open>d\<close> has another value; and when descriptions and values are
  pairwise distinct, \<open>class_values\<close> is the inverse of \<open>class_names\<close>.
\<close>

theorem colorbar_labels_by_class:
  "t < N \<Longrightarrow>
   ((\<forall>x\<in>set cls. snd x \<noteq> int t) \<longrightarrow> colorbar_labels cls N ! t = ''nodata'') \<and>
   ((d, int t) \<in> set cls \<and> (\<forall>x\<in>set cls. snd x = int t \<longrightarrow> fst x = d)
      \<and> (\<forall>x\<in>set cls. fst x = d \<longrightarrow> snd x = int t) \<longrightarrow> colorbar_labels cls N ! t = d) \<and>
   (distinct (map fst cls) \<and> distinct (map snd cls) \<longrightarrow>
      (map_of (class_values (class_names cls)) v = Some d')
        = (map_of (class_names cls) d' = Some v))"
proof (intro conjI impI)
  assume "t < N" "\<forall>x\<in>set cls. snd x \<noteq> int t"
  then show "colorbar_labels cls N ! t = ''nodata''"
    by (simp add: colorbar_labels_nth dict_get_def class_values_None)
next
  assume "t < N" and h: "(d, int t) \<in> set cls \<and> (\<forall>x\<in>set cls. snd x = int t \<longrightarrow> fst x = d)
      \<and> (\<forall>x\<in>set cls. fst x = d \<longrightarrow> snd x = int t)"
  then have "map_of (class_values (class_names cls)) (int t) = Some d"
    by (intro class_values_Some) auto
  with \<open>t < N\<close> show "colorbar_labels cls N ! t = d"
    by (simp add: colorbar_labels_nth dict_get_def)
next
  assume "distinct (map fst cls) \<and> distinct (map snd cls)"
  then show "(map_of (class_values (class_names cls)) v = Some d')
        = (map_of (class_names cls) d' = Some v)"
    by (intro class_inverse) auto
qed

theorem colorbar_labels_by_class_witness:
  "length chesapeake_classmap = 19 \<and>
   colorbar_labels chesapeake_classes (length chesapeake_classmap) ! 0 = ''nodata'' \<and>
   colorbar_labels chesapeake_classes (length chesapeake_classmap) ! 18 = ''nodata'' \<and>
   colorbar_labels chesapeake_classes (length chesapeake_classmap) ! 1 = ''Impervious Roads'' \<and>
   (map_of (class_values (class_names chesapeake_classes)) 17 = Some ''Pasture/Hay'')
     = (map_of (class_names chesapeake_classes) ''Pasture/Hay'' = Some 17)"
proof -
  have n: "length chesapeake_classmap = 19" by (simp add: chesapeake_classmap_def)
  have a0: "\<forall>x\<in>set chesapeake_classes. snd x \<noteq> int 0" by (simp add: chesapeake_classes_def)
  have a18: "\<forall>x\<in>set chesapeake_classes. snd x \<noteq> int 18" by (simp add: chesapeake_classes_def)
  have a1: "(''Impervious Roads'', int 1) \<in> set chesapeake_classes
      \<and> (\<forall>x\<in>set chesapeake_classes. snd x = int 1 \<longrightarrow> fst x = ''Impervious Roads'')
      \<and> (\<forall>x\<in>set chesapeake_classes. fst x = ''Impervious Roads'' \<longrightarrow> snd x = int 1)"
    by (simp add: chesapeake_classes_def)
  have dd: "distinct (map fst chesapeake_classes) \<and> distinct (map snd chesapeake_classes)"
    by (simp add: chesapeake_classes_def)
  have t0: "0 < (19 :: nat)" and t1: "1 < (19 :: nat)" and t18: "18 < (19 :: nat)"
    by simp_all
  have l0: "colorbar_labels chesapeake_classes 19 ! 0 = ''nodata''"
    by (rule colorbar_labels_by_class [of 0 19 chesapeake_classes "''Water''" 4 "''Water''",
          OF t0, THEN conjunct1, THEN mp, OF a0])
  have l18: "colorbar_labels chesapeake_classes 19 ! 18 = ''nodata''"
    by (rule colorbar_labels_by_class [of 18 19 chesapeake_classes "''Water''" 4 "''Water''",
          OF t18, THEN conjunct1, THEN mp, OF a18])
  have l1: "colorbar_labels chesapeake_classes 19 ! 1 = ''Impervious Roads''"
    by (rule colorbar_labels_by_class [of 1 19 chesapeake_classes "''Impervious Roads''" 4
          "''Water''", OF t1, THEN conjunct2, THEN conjunct1, THEN mp, OF a1])
  have inv: "(map_of (class_values (class_names chesapeake_classes)) 17 = Some ''Pasture/Hay'')
     = (map_of (class_names chesapeake_classes) ''Pasture/Hay'' = Some 17)"
    by (rule colorbar_labels_by_class [of 0 19 chesapeake_classes "''Water''" 17
          "''Pasture/Hay''", OF t0, THEN conjunct2, THEN conjunct2, THEN mp, OF dd])
  show ?thesis
    unfolding n using l0 l18 l1 inv by (intro conjI) simp_all
qed

theorem colorbar_labels_counterexample:
  "count_list (map snd [(''A'', 1 :: int), (''A'', 2)]) 1 = 1 \<and>
   (''A'', 1) \<in> set [(''A'', 1 :: int), (''A'', 2)] \<and>
   colorbar_labels [(''A'', 1), (''A'', 2)] 3 ! 1 = ''nodata'' \<and>
   colorbar_labels [(''A'', 1), (''A'', 2)] 3 ! 1 \<noteq> ''A''"
  by (simp add: colorbar_labels_def labels_def ticks_def class_values_def class_names_def
        dict_get_def upt_rec)

section \<open>The data API notebook: what the cells do when the service answers\<close>






lemma thn_add_to:
  "thn (add_to l) f s = (case da_m s of None \<Rightarrow> (Inl NameError, s)
     | Some m \<Rightarrow> f () (s\<lparr>da_m := Some (m\<lparr>layers := layers m @ [l]\<rparr>)\<rparr>))"
  by (simp add: add_to_def thn_assoc thn_simps split: option.splits)




lemma snd_thn_ret: "snd (thn m (\<lambda>_. ret ()) s) = snd (m s)"
  by (simp add: thn_def ret_def split: prod.splits sum.splits)

lemma fst_thn_ret: "fst (thn m (\<lambda>_. ret ()) s) = fst (m s)"
  by (simp add: thn_def ret_def split: prod.splits sum.splits)

lemma cell_tilejson_run:
  assumes "da_item s = Some it" and "lookup (assets it) ''tilejson'' = Inr a"
    and "server ext (GET (href a) []) = Inr resp" and "body resp = Some tj"
  shows "cell_tilejson ext s =
    (Inr (), s\<lparr>trace := trace s @ [Request (GET (href a) []), Out tj],
               da_r := Some (RJson tj)\<rparr>)"
  using assms by (simp add: cell_tilejson_def thn_simps emit_apply response_json_Some)

lemma cell_tiles_run:
  assumes "da_r s = Some (RJson tj)" and "first_tiles tj = Inr t"
  shows "cell_tiles s = (Inr (), s\<lparr>da_tiles := Some t\<rparr>)"
  using assms
  by (auto simp: cell_tiles_def first_tiles_def thn_simps modify_apply split: sum.splits)

lemma cell_map_run:
  assumes "da_item s = Some it" and "bbox it = Some b" and "4 \<le> length b"
    and "da_tiles s = Some t" and "t = JStr u" and "sublist ''{z}/{x}/{y}'' u"
  shows "cell_map ext s =
    (Inr (), s\<lparr>trace := trace s @ [OutWidget ''m''],
       da_center := Some (ftruediv ext (fadd ext (b ! 1) (b ! 3)) 2,
                          ftruediv ext (fadd ext (b ! 0) (b ! 2)) 2),
       da_m := Some \<lparr>location = (ftruediv ext (fadd ext (b ! 1) (b ! 3)) 2,
                                  ftruediv ext (fadd ext (b ! 0) (b ! 2)) 2),
          zoom_start = 11, map_tiles = basemap_url, map_attr = basemap_attr,
          layers = [TileLayer t ''Planetary Computer'' None]\<rparr>\<rparr>)"
proof -
  from assms(3) have "0 < length b" "1 < length b" "2 < length b" "3 < length b"
    by auto
  with assms(1,2,4,5,6) show ?thesis
    by (simp add: cell_map_def bbox_at_def folium_TileLayer_def thn_add_to thn_simps emit_apply)
qed

lemma cell_map_location:
  assumes "da_item s = Some it" and "bbox it = Some b" and "4 \<le> length b"
  shows "\<exists>m. da_m (snd (cell_map ext s)) = Some m \<and>
     location m = (ftruediv ext (fadd ext (b ! 1) (b ! 3)) 2,
                   ftruediv ext (fadd ext (b ! 0) (b ! 2)) 2)"
proof -
  from assms(3) have "0 < length b" "1 < length b" "2 < length b" "3 < length b"
    by auto
  with assms(1,2) show ?thesis
    by (cases "da_tiles s")
      (auto simp: cell_map_def bbox_at_def thn_add_to thn_simps emit_apply split: sum.splits)
qed

lemma item_map_workflow_run:
  assumes "da_item s = Some it" and "lookup (assets it) ''tilejson'' = Inr a"
    and "answers ext (GET (href a) []) tj" and "first_tiles tj = Inr t"
    and "bbox it = Some b" and "4 \<le> length b"
    and "t = JStr u" and "sublist ''{z}/{x}/{y}'' u"
  shows "\<exists>s' m. item_map_workflow ext s = (Inr (), s') \<and> da_r s' = Some (RJson tj) \<and>
     da_tiles s' = Some t \<and> da_m s' = Some m \<and>
     layers m = [TileLayer t ''Planetary Computer'' None] \<and>
     trace s' = trace s @ [Request (GET (href a) []), Out tj, OutWidget ''m'']"
proof -
  from assms(3) obtain resp where r: "server ext (GET (href a) []) = Inr resp"
    "body resp = Some tj" by (auto dest: answersD)
  define s1 where "s1 = snd (cell_tilejson ext s)"
  note run1 = cell_tilejson_run [OF assms(1,2) r]
  have c1: "cell_tilejson ext s = (Inr (), s1)" unfolding s1_def using run1 by simp
  have s1: "da_r s1 = Some (RJson tj)" "da_item s1 = Some it"
    "trace s1 = trace s @ [Request (GET (href a) []), Out tj]"
    unfolding s1_def using run1 assms(1) by simp_all
  define s2 where "s2 = snd (cell_tiles s1)"
  note run2 = cell_tiles_run [OF s1(1) assms(4)]
  have c2: "cell_tiles s1 = (Inr (), s2)" unfolding s2_def using run2 by simp
  have s2: "da_r s2 = Some (RJson tj)" "da_item s2 = Some it" "da_tiles s2 = Some t"
    "trace s2 = trace s1"
    unfolding s2_def using run2 s1 by simp_all
  define s3 where "s3 = snd (cell_map ext s2)"
  note run3 = cell_map_run [OF s2(2) assms(5,6) s2(3) assms(7,8), of ext]
  have c3: "cell_map ext s2 = (Inr (), s3)" unfolding s3_def using run3 by simp
  have s3: "da_r s3 = Some (RJson tj)" "da_tiles s3 = Some t"
    "trace s3 = trace s2 @ [OutWidget ''m'']"
    "\<exists>m. da_m s3 = Some m \<and> layers m = [TileLayer t ''Planetary Computer'' None]"
    unfolding s3_def using run3 s2 by simp_all
  have "item_map_workflow ext s = (Inr (), s3)"
    by (simp add: item_map_workflow_def thn_def c1 c2 c3 ret_def)
  with s1 s2 s3 show ?thesis by auto
qed

lemma preserves_r_after_tilejson:
  "preserves da_r cell_tiles" "preserves da_r (cell_map ext)"
  "preserves da_r (cell_mosaic_tiles ext)" "preserves da_r (cell_mosaic_map ext)"
  unfolding cell_tiles_def cell_map_def cell_mosaic_tiles_def cell_mosaic_map_def add_to_def
  by (intro preserves_intros; simp)+

text \<open>
  C4. A fetched TileJSON is read-only configuration. When the service answers the TileJSON
  request of the item with a document \<open>tj\<close> whose \<open>tiles\<close> array starts with a template
  \<open>t\<close> holding the \<open>{z}/{x}/{y}\<close> placeholders, the cells from the request to the map end
  normally, \<open>r\<close> is still bound to \<open>tj\<close> as it was parsed, \<open>tiles\<close> is \<open>t\<close>, and the
  only layer added to the map is a tile layer whose template is that same string, the first
  element of \<open>tj["tiles"]\<close>. The two cells after the request never write \<open>r\<close>, in any
  namespace.
\<close>

theorem tilejson_is_read_only:
  assumes "da_item s = Some it" and "lookup (assets it) ''tilejson'' = Inr a"
    and "answers ext (GET (href a) []) tj" and "first_tiles tj = Inr t" and "is_template t"
    and "bbox it = Some b" and "4 \<le> length b"
  shows "(case item_map_workflow ext s of (res, s') \<Rightarrow>
           res = Inr () \<and> da_r s' = Some (RJson tj) \<and> da_tiles s' = Some t \<and>
           (\<exists>m u. da_m s' = Some m \<and> layers m = [TileLayer (JStr u) ''Planetary Computer'' None]
              \<and> first_tiles tj = Inr (JStr u) \<and> sublist ''{z}/{x}/{y}'' u)) \<and>
         da_r (snd (cell_tiles s1)) = da_r s1 \<and> da_r (snd (cell_map ext s1)) = da_r s1"
proof -
  from assms(5) obtain u where u: "t = JStr u" "sublist ''{z}/{x}/{y}'' u"
    by (auto simp: is_template_def split: json.splits)
  from item_map_workflow_run [OF assms(1,2,3,4,6,7) u] u assms(4)
  have "case item_map_workflow ext s of (res, s') \<Rightarrow>
           res = Inr () \<and> da_r s' = Some (RJson tj) \<and> da_tiles s' = Some t \<and>
           (\<exists>m u. da_m s' = Some m \<and> layers m = [TileLayer (JStr u) ''Planetary Computer'' None]
              \<and> first_tiles tj = Inr (JStr u) \<and> sublist ''{z}/{x}/{y}'' u)"
    by auto
  then show ?thesis
    using preserves_r_after_tilejson(1) preserves_r_after_tilejson(2) [of ext]
    by (simp add: preserves_def)
qed

text \<open>
  C10. In the single-item map display, for an item whose bounding box has at least four
  numbers, the location of the map is \<open>(bbox[1] + bbox[3]) / 2\<close> followed by
  \<open>(bbox[0] + bbox[2]) / 2\<close>, computed with the float operations of the interpreter:
  latitude first, from a bounding box stored longitude first. With exact arithmetic the two
  components are the arithmetic midpoints.
\<close>

theorem map_location_is_bbox_midpoint:
  assumes "da_item s = Some it" and "bbox it = Some b" and "4 \<le> length b"
  shows "\<exists>m. da_m (snd (cell_map ext s)) = Some m \<and>
     location m = (ftruediv ext (fadd ext (b ! 1) (b ! 3)) 2,
                   ftruediv ext (fadd ext (b ! 0) (b ! 2)) 2) \<and>
     (fadd ext = (+) \<and> ftruediv ext = (/) \<longrightarrow>
        location m = ((b ! 1 + b ! 3) / 2, (b ! 0 + b ! 2) / 2))"
  using cell_map_location [OF assms, of ext] by auto





section \<open>The recorded run as an instance\<close>

lemma ex_states:
  "da_search data_before_mosaic = Some example_search"
  "da_item data_before_mosaic = Some example_item"
  "da_aoi data_before_mosaic = Some aoi_polygon"
  "trace data_before_mosaic = []"
  "da_item data_after_item = Some example_item"
  "trace data_after_item = []"
  "da_tilejson_url data_after_info = Some (JStr example_mosaic_href)"
  "da_item data_after_info = Some example_item"
  "da_render_config data_after_info = Some example_render_config"
  "da_search data_after_info = Some example_search"
  "trace data_after_info = []"
  "da_registered data_after_register = Some example_registered"
  "da_item data_after_register = Some example_item"
  "trace data_after_register = []"
  by (simp_all add: data_before_mosaic_def data_after_item_def data_after_info_def
        data_after_register_def fresh_data_def)

lemma ex_item:
  "collection_id example_item = Some ''sentinel-2-l2a''"
  "bbox example_item = Some example_bbox"
  "lookup (assets example_item) ''tilejson''
     = Inr \<lparr>href = example_tilejson_href, title = Some ''TileJSON with default rendering''\<rparr>"
  by (simp_all add: example_item_def lookup_def)

lemma ex_ext:
  "server example_ext = example_server"
  "get_parameters example_ext example_search = example_parameters"
  "geometry_centroid example_ext aoi_polygon = Inr (30.25909423828125, 8.956671496894216)"
  "fadd example_ext = (+)" "ftruediv example_ext = (/)"
  "client_open example_ext u = Inr ()"
  by (simp_all add: example_ext_def example_get_parameters_def example_search_def
        example_parameters_def format_parameter_def List.map_filter_simps
        polygon_centroid_def aoi_polygon_def json_point_def json_number_def)


lemma ex_urls_distinct:
  "item_url \<noteq> example_tilejson_href" "item_url \<noteq> info_url" "item_url \<noteq> classmap_url"
  "example_tilejson_href \<noteq> info_url" "example_tilejson_href \<noteq> classmap_url"
  "info_url \<noteq> classmap_url"
  "info_url \<noteq> example_mosaic_href @ ''?collection=sentinel-2-l2a&'' @ example_options"
  "item_url \<noteq> example_mosaic_href @ ''?collection=sentinel-2-l2a&'' @ example_options"
  "example_tilejson_href \<noteq> example_mosaic_href @ ''?collection=sentinel-2-l2a&'' @ example_options"
  "classmap_url \<noteq> example_mosaic_href @ ''?collection=sentinel-2-l2a&'' @ example_options"
  "info_url \<noteq> example_mosaic_href"
  by (simp_all add: item_url_def example_tilejson_href_def info_url_def classmap_url_def
        example_mosaic_href_def)

lemma ex_answers:
  "answers example_ext (POST register_url example_parameters) example_registered"
  "answers example_ext (GET info_url [(''collection'', Some ''sentinel-2-l2a'')]) example_mosaic_info"
  "answers example_ext
     (GET (example_mosaic_href @ ''?collection=sentinel-2-l2a&'' @ example_options) [])
     example_mosaic_tilejson"
  "answers example_ext (GET example_tilejson_href []) example_tilejson"
  using ex_urls_distinct
  by (simp_all add: answers_def ex_ext example_server_def example_routes_def)

lemma ex_json:
  "link_href example_registered = Inr (JStr example_mosaic_href)"
  "first_render_options example_mosaic_info = Inr example_render_config"
  "getitem_str example_render_config ''options'' = Inr (JStr example_options)"
  "getitem_str example_render_config ''minZoom'' = Inr (JInt 9)"
  "first_tiles example_mosaic_tilejson = Inr (JStr example_mosaic_tiles)"
  "first_tiles example_tilejson = Inr (JStr example_item_tiles)"
  by (simp_all add: link_href_def example_registered_def first_render_options_def
        example_mosaic_info_def example_render_config_def first_tiles_def
        example_mosaic_tilejson_def example_tilejson_def)


lemma ex_templates:
  "is_template (JStr example_item_tiles)" "sublist example_searchid example_mosaic_href"
  "is_template (JStr example_mosaic_tiles)"
  by (simp_all add: is_template_def example_item_tiles_def example_searchid_def
        example_mosaic_href_def example_mosaic_tiles_def sublist_Cons_right)



theorem tilejson_is_read_only_witness:
  "is_template (JStr example_item_tiles) \<and> 4 \<le> length example_bbox \<and>
   fst (item_map_workflow example_ext data_after_item) = Inr () \<and>
   da_r (snd (item_map_workflow example_ext data_after_item)) = Some (RJson example_tilejson) \<and>
   da_tiles (snd (item_map_workflow example_ext data_after_item))
     = Some (JStr example_item_tiles)"
proof -
  have a: "answers example_ext (GET (href \<lparr>href = example_tilejson_href,
      title = Some ''TileJSON with default rendering''\<rparr>) []) example_tilejson"
    by (simp add: ex_answers)
  have b: "4 \<le> length example_bbox" by (simp add: example_bbox_def)
  show ?thesis
    using tilejson_is_read_only [OF ex_states(5) ex_item(3) a ex_json(6) ex_templates(1)
        ex_item(2) b, of data_after_item] b ex_templates(1)
    by (simp add: case_prod_unfold)
qed

theorem map_location_is_bbox_midpoint_witness:
  "4 \<le> length example_bbox \<and>
   (\<exists>m. da_m (snd (cell_map example_ext data_after_item)) = Some m \<and>
        location m = (9.45210372, 31.67758931))"
proof -
  have b: "4 \<le> length example_bbox" by (simp add: example_bbox_def)
  show ?thesis
    using map_location_is_bbox_midpoint [OF ex_states(5) ex_item(2) b, of example_ext] b
    by (auto simp: ex_ext example_bbox_def)
qed



section \<open>Failing requests\<close>






section \<open>The footprint browser: one map and one layer for every selection\<close>











end
